theory Spec2Isabelle
  imports Complex_Main
begin

section \<open>JavaScript numbers and values\<close>

text \<open>
  A JavaScript number is modelled as an exact real, or one of the three special values
  of IEEE arithmetic. The special values follow the IEEE rules that the source relies on:
  \<open>x / 0\<close> is an infinity or NaN, NaN propagates, every comparison with NaN is false.
  Finite arithmetic is exact. A double differs from it in three ways: results are rounded
  in binary (a difference in the last bit, which decides a half-way case of \<open>Math.round\<close>
  or \<open>toFixed\<close>: \<open>29/80 * 842 * 100\<close> is \<open>30522.5\<close> here and \<open>30522.499999999996\<close> there),
  a finite result beyond about \<open>1.8 * 10^308\<close> becomes an infinity, and zero has a sign
  (\<open>1 / -0\<close> is \<open>-Infinity\<close>). The general
  statements below that depend on it therefore bound the magnitudes of their operands, so
  that no operation of the code overflows, and keep a divisor away from zero.
\<close>

datatype number = Fin real | PInf | NInf | NaN

fun js_neg :: "number \<Rightarrow> number" where
  "js_neg (Fin a) = Fin (- a)"
| "js_neg PInf = NInf"
| "js_neg NInf = PInf"
| "js_neg NaN = NaN"

fun js_add :: "number \<Rightarrow> number \<Rightarrow> number" where
  "js_add NaN _ = NaN"
| "js_add _ NaN = NaN"
| "js_add (Fin a) (Fin b) = Fin (a + b)"
| "js_add PInf NInf = NaN"
| "js_add NInf PInf = NaN"
| "js_add PInf _ = PInf"
| "js_add NInf _ = NInf"
| "js_add (Fin a) b = b"

definition js_sub :: "number \<Rightarrow> number \<Rightarrow> number" where
  "js_sub a b = js_add a (js_neg b)"

text \<open>The sign of a number: \<open>1\<close>, \<open>-1\<close>, or \<open>0\<close> for zero (NaN is handled before).\<close>

fun js_sign :: "number \<Rightarrow> int" where
  "js_sign (Fin a) = (if a > 0 then 1 else if a < 0 then - 1 else 0)"
| "js_sign PInf = 1"
| "js_sign NInf = - 1"
| "js_sign NaN = 0"

definition signed_inf :: "int \<Rightarrow> number" where
  "signed_inf s = (if s > 0 then PInf else if s < 0 then NInf else NaN)"

fun js_mul :: "number \<Rightarrow> number \<Rightarrow> number" where
  "js_mul NaN _ = NaN"
| "js_mul _ NaN = NaN"
| "js_mul (Fin a) (Fin b) = Fin (a * b)"
| "js_mul a b = signed_inf (js_sign a * js_sign b)"

fun js_div :: "number \<Rightarrow> number \<Rightarrow> number" where
  "js_div NaN _ = NaN"
| "js_div _ NaN = NaN"
| "js_div (Fin a) (Fin b) = (if b = 0 then signed_inf (js_sign (Fin a)) else Fin (a / b))"
| "js_div (Fin a) _ = Fin 0"
| "js_div a (Fin b) = signed_inf (js_sign a * (if b < 0 then - 1 else 1))"
| "js_div _ _ = NaN"

fun js_gt :: "number \<Rightarrow> number \<Rightarrow> bool" where
  "js_gt NaN _ = False"
| "js_gt _ NaN = False"
| "js_gt (Fin a) (Fin b) = (a > b)"
| "js_gt PInf b = (b \<noteq> PInf)"
| "js_gt a NInf = (a \<noteq> NInf)"
| "js_gt _ _ = False"

fun js_le :: "number \<Rightarrow> number \<Rightarrow> bool" where
  "js_le NaN _ = False"
| "js_le _ NaN = False"
| "js_le a b = (\<not> js_gt a b)"

fun isFinite :: "number \<Rightarrow> bool" where
  "isFinite (Fin a) = True"
| "isFinite _ = False"

fun Math_min :: "number \<Rightarrow> number \<Rightarrow> number" where
  "Math_min NaN _ = NaN"
| "Math_min _ NaN = NaN"
| "Math_min a b = (if js_gt a b then b else a)"

fun Math_max :: "number \<Rightarrow> number \<Rightarrow> number" where
  "Math_max NaN _ = NaN"
| "Math_max _ NaN = NaN"
| "Math_max a b = (if js_gt b a then b else a)"

text \<open>\<open>Math.round\<close> rounds to the nearest integer, halves towards \<open>+Infinity\<close>.\<close>

fun Math_round :: "number \<Rightarrow> number" where
  "Math_round (Fin a) = Fin (of_int \<lfloor>a + 1 / 2\<rfloor>)"
| "Math_round v = v"

text \<open>
  \<open>Number(v.toFixed(6))\<close>: the nearest multiple of \<open>10^-6\<close>, halves away from zero (the
  sign is split off first); from \<open>10^21\<close> on \<open>toFixed\<close> prints the number itself.
\<close>

fun toFixed6 :: "number \<Rightarrow> number" where
  "toFixed6 (Fin a) =
     (if \<bar>a\<bar> \<ge> 10 ^ 21 then Fin a
      else if a < 0 then Fin (- (of_int \<lfloor>- a * 10 ^ 6 + 1 / 2\<rfloor> / 10 ^ 6))
      else Fin (of_int \<lfloor>a * 10 ^ 6 + 1 / 2\<rfloor> / 10 ^ 6))"
| "toFixed6 v = v"

text \<open>
  The mapper looks at a field of its arguments only through \<open>v || d\<close> (is \<open>v\<close> truthy?)
  and \<open>Number(v)\<close>. A field value is therefore one of: absent (\<open>undefined\<close>), \<open>null\<close>,
  a boolean, a number, or \<open>JOpaque\<close>: any truthy value that \<open>Number\<close> turns into NaN, such
  as the string \<open>"abc"\<close> or a plain object. A string that denotes a number behaves in this
  function as that number does. Symbols, on which \<open>Number\<close> throws, are outside the model,
  and so is a call whose argument is not an object.
\<close>

datatype jsval = JUndefined | JNull | JBool bool | JNum number | JOpaque

fun js_truthy :: "jsval \<Rightarrow> bool" where
  "js_truthy JUndefined = False"
| "js_truthy JNull = False"
| "js_truthy (JBool b) = b"
| "js_truthy (JNum n) = (n \<noteq> Fin 0 \<and> n \<noteq> NaN)"
| "js_truthy JOpaque = True"

definition js_or :: "jsval \<Rightarrow> jsval \<Rightarrow> jsval" where
  "js_or v d = (if js_truthy v then v else d)"

fun Number :: "jsval \<Rightarrow> number" where
  "Number JUndefined = NaN"
| "Number JNull = Fin 0"
| "Number (JBool b) = (if b then Fin 1 else Fin 0)"
| "Number (JNum n) = n"
| "Number JOpaque = NaN"

section \<open>The coordinate mapper (client/src/lib/Coord.js)\<close>

definition clamp01 :: "number \<Rightarrow> number" where
  "clamp01 v = Math_max (Fin 0) (Math_min (Fin 1) (if isFinite v then v else Fin 0))"

text \<open>
  The argument and result objects. Field names that several objects share carry a prefix:
  \<open>cb_\<close> for the CSS pixel box, \<open>sz_\<close> for a size, \<open>pb_\<close> for a box in PDF points.
\<close>

record cssBox =
  cb_left :: jsval
  cb_top :: jsval
  cb_width :: jsval
  cb_height :: jsval

record size2 =
  sz_width :: jsval
  sz_height :: jsval

record pdfBox =
  pb_x :: number
  pb_y :: number
  pb_width :: number
  pb_height :: number

record fractions =
  x_frac :: number
  y_frac :: number
  w_frac :: number
  h_frac :: number

record mapped =
  pdfBox :: pdfBox
  fractions :: fractions

text \<open>
  \<open>rnd\<close> is the mapper's inner function; \<open>safe\<close> is the ternary \<open>r > 0 ? r : 1\<close> that the
  source writes out four times.
\<close>

definition rnd :: "number \<Rightarrow> number" where
  "rnd v = js_div (Math_round (js_mul v (Fin 100))) (Fin 100)"

definition safe :: "number \<Rightarrow> number" where
  "safe r = (if js_gt r (Fin 0) then r else Fin 1)"

definition cssBoxToPdfPoints :: "cssBox \<Rightarrow> size2 \<Rightarrow> size2 \<Rightarrow> mapped" where
  "cssBoxToPdfPoints cssBox renderedSize pageSizePoints =
    (let left = Number (js_or (cb_left cssBox) (JNum (Fin 0)));
         top = Number (js_or (cb_top cssBox) (JNum (Fin 0)));
         widthPx = Number (js_or (cb_width cssBox) (JNum (Fin 0)));
         heightPx = Number (js_or (cb_height cssBox) (JNum (Fin 0)));
         rW = Number (js_or (sz_width renderedSize) (JNum (Fin 1)));
         rH = Number (js_or (sz_height renderedSize) (JNum (Fin 1)));
         pW = Number (js_or (sz_width pageSizePoints) (JNum (Fin 1)));
         pH = Number (js_or (sz_height pageSizePoints) (JNum (Fin 1)));
         safeRW = safe rW;
         safeRH = safe rH;
         safePW = safe pW;
         safePH = safe pH;
         xf = clamp01 (js_div left safeRW);
         yf = clamp01 (js_div top safeRH);
         wf = clamp01 (js_div widthPx safeRW);
         hf = clamp01 (js_div heightPx safeRH);
         x_pts = js_mul xf safePW;
         width_pts = js_mul wf safePW;
         bottomPx = js_sub (js_sub safeRH top) heightPx;
         y_frac_from_bottom = clamp01 (js_div bottomPx safeRH);
         y_pts = js_mul y_frac_from_bottom safePH;
         height_pts = js_mul hf safePH
     in \<lparr> pdfBox = \<lparr> pb_x = rnd x_pts, pb_y = rnd y_pts,
                       pb_width = rnd width_pts, pb_height = rnd height_pts \<rparr>,
          fractions = \<lparr> x_frac = toFixed6 xf, y_frac = toFixed6 yf,
                          w_frac = toFixed6 wf, h_frac = toFixed6 hf \<rparr> \<rparr>)"


section \<open>Auxiliary notions for the statements and proofs\<close>

text \<open>
  Rounding to two and to six decimals on the reals, the clamp on the reals, and the
  clamped fraction of a (possibly non-finite) number by a positive divisor.
\<close>

definition round2 :: "real \<Rightarrow> real" where
  "round2 a = of_int \<lfloor>a * 100 + 1 / 2\<rfloor> / 100"

definition round6 :: "real \<Rightarrow> real" where
  "round6 a = of_int \<lfloor>a * 10 ^ 6 + 1 / 2\<rfloor> / 10 ^ 6"

definition clampr :: "real \<Rightarrow> real" where
  "clampr a = max 0 (min 1 a)"

definition fracOf :: "number \<Rightarrow> real \<Rightarrow> real" where
  "fracOf v r = (case v of Fin a \<Rightarrow> clampr (a / r) | _ \<Rightarrow> 0)"

definition botFrac :: "number \<Rightarrow> number \<Rightarrow> real \<Rightarrow> real" where
  "botFrac t h r =
     (case t of Fin a \<Rightarrow> (case h of Fin b \<Rightarrow> clampr ((r - a - b) / r) | _ \<Rightarrow> 0) | _ \<Rightarrow> 0)"

definition boxField :: "jsval \<Rightarrow> number" where
  "boxField v = Number (js_or v (JNum (Fin 0)))"

text \<open>A size and a pixel box all of whose fields are finite numbers.\<close>

definition finSize :: "real \<Rightarrow> real \<Rightarrow> size2" where
  "finSize w h = \<lparr> sz_width = JNum (Fin w), sz_height = JNum (Fin h) \<rparr>"

definition numBox :: "real \<Rightarrow> real \<Rightarrow> real \<Rightarrow> real \<Rightarrow> cssBox" where
  "numBox l t w h =
     \<lparr> cb_left = JNum (Fin l), cb_top = JNum (Fin t),
       cb_width = JNum (Fin w), cb_height = JNum (Fin h) \<rparr>"

text \<open>
  The round trip of the testable properties: a pixel box is rebuilt from the returned
  fractions as \<open>frac * renderedSize\<close> and mapped again at the same sizes. Two numbers agree
  within the tolerance when they are the same value, or finite and at most 0.01 apart.
\<close>

definition reconstructPixelBox :: "fractions \<Rightarrow> size2 \<Rightarrow> cssBox" where
  "reconstructPixelBox f renderedSize =
     \<lparr> cb_left = JNum (js_mul (x_frac f) (Number (sz_width renderedSize))),
       cb_top = JNum (js_mul (y_frac f) (Number (sz_height renderedSize))),
       cb_width = JNum (js_mul (w_frac f) (Number (sz_width renderedSize))),
       cb_height = JNum (js_mul (h_frac f) (Number (sz_height renderedSize))) \<rparr>"

definition roundTrip :: "cssBox \<Rightarrow> size2 \<Rightarrow> size2 \<Rightarrow> mapped" where
  "roundTrip b renderedSize pageSizePoints =
     cssBoxToPdfPoints
       (reconstructPixelBox (fractions (cssBoxToPdfPoints b renderedSize pageSizePoints)) renderedSize)
       renderedSize pageSizePoints"

fun within_tol :: "number \<Rightarrow> number \<Rightarrow> bool" where
  "within_tol (Fin a) (Fin b) = (\<bar>a - b\<bar> \<le> 1 / 100)"
| "within_tol a b = (a = b)"

text \<open>A size field that the mapper uses as it is: a number greater than zero.\<close>

fun isPositiveNumber :: "jsval \<Rightarrow> bool" where
  "isPositiveNumber (JNum n) = js_gt n (Fin 0)"
| "isPositiveNumber _ = False"

section \<open>The fit computation of the signing code\<close>

text \<open>
  The block that fits the signature image into its target box is written out, word for
  word, in the \<open>/api/sign-pdf\<close> and \<open>/api/sign-pdf-multi\<close> handlers of \<open>server.js\<close>, in
  \<open>signPdfHandler\<close> of \<open>controllers/signController.js\<close> and in \<open>burnInLocallyMultiple\<close>
  of \<open>PdfEditor.jsx\<close>. \<open>fit\<close> is that block: from the embedded image and the target box
  to the rectangle handed to \<open>page.drawImage\<close>. The fields are numbers; a field missing
  from a request behaves in this arithmetic as NaN.
\<close>

record image =
  img_width :: number
  img_height :: number

record fitRect =
  fr_x :: number
  fr_y :: number
  fr_width :: number
  fr_height :: number

definition fit :: "image \<Rightarrow> pdfBox \<Rightarrow> fitRect" where
  "fit img box =
    (let x = pb_x box; y = pb_y box; boxW = pb_width box; boxH = pb_height box;
         imgW = img_width img; imgH = img_height img;
         imgRatio = js_div imgW imgH;
         boxRatio = js_div boxW boxH;
         drawW = (if js_gt imgRatio boxRatio then boxW else js_mul boxH imgRatio);
         drawH = (if js_gt imgRatio boxRatio then js_div boxW imgRatio else boxH);
         offsetX = js_add x (js_div (js_sub boxW drawW) (Fin 2));
         offsetY = js_add y (js_div (js_sub boxH drawH) (Fin 2))
     in \<lparr> fr_x = offsetX, fr_y = offsetY, fr_width = drawW, fr_height = drawH \<rparr>)"

section \<open>The server (server/server.js)\<close>

text \<open>
  An exception is a value carrying its message. A response is an error with its status
  and message, or one of the two success bodies. An optional string of a request body is
  truthy when it is present and not empty.
\<close>

datatype js_error = Thrown string

type_synonym bytes = "nat list"

fun str_truthy :: "string option \<Rightarrow> bool" where
  "str_truthy None = False"
| "str_truthy (Some s) = (s \<noteq> [])"

text \<open>
  \<open>err.message || fallback\<close>, \<open>path.basename\<close> on a POSIX path that does not end in a slash,
  \<open>s.startsWith('data:image/png')\<close>, \<open>s.includes(',') ? s.split(',')[1] : s\<close>, and
  \<open>s.replace(/\.pdf$/i, '')\<close>.
\<close>

fun message_or :: "js_error \<Rightarrow> string \<Rightarrow> string" where
  "message_or (Thrown m) fallback = (if m = [] then fallback else m)"

definition basename :: "string \<Rightarrow> string" where
  "basename p = rev (takeWhile (\<lambda>c. c \<noteq> CHR ''/'') (rev p))"

definition is_png :: "string \<Rightarrow> bool" where
  "is_png s = (take 14 s = ''data:image/png'')"

definition base64_part :: "string \<Rightarrow> string" where
  "base64_part s =
     (if CHR '','' \<in> set s
      then takeWhile (\<lambda>c. c \<noteq> CHR '','') (tl (dropWhile (\<lambda>c. c \<noteq> CHR '','') s))
      else s)"

definition ends_with_pdf :: "string \<Rightarrow> bool" where
  "ends_with_pdf s =
     (case rev s of
        f # d # p # dot # _ \<Rightarrow>
          dot = CHR ''.'' \<and> (p = CHR ''p'' \<or> p = CHR ''P'') \<and> (d = CHR ''d'' \<or> d = CHR ''D'')
          \<and> (f = CHR ''f'' \<or> f = CHR ''F'')
      | _ \<Rightarrow> False)"

definition strip_pdf :: "string \<Rightarrow> string" where
  "strip_pdf s = (if ends_with_pdf s then take (length s - 4) s else s)"

subsection \<open>POST /api/upload-pdf\<close>

text \<open>
  The \<open>UploadedDocument\<close> collection is a list of records in insertion order; the storage
  directory is the set of its file names. The schema (models/UploadedDocument.js) requires
  \<open>pdfId\<close>, \<open>pdfPath\<close> and \<open>pdfHash\<close> and makes \<open>pdfId\<close> unique, so \<open>create\<close> throws on a
  missing hash and on a \<open>pdfId\<close> that is already stored. The handler runs after multer has
  written the uploaded file under \<open>filename\<close>. \<open>sha256\<close> is the SHA-256 of the stored file
  in hex and \<open>readable\<close> tells whether \<open>computeFileSha256Hex\<close> can read it. Requests are
  handled one after the other, the database answers every query, and \<open>unlink\<close> removes the
  file.
\<close>

record uploadedDocument =
  ud_pdfId :: string
  pdfPath :: string
  pdfHash :: string
  originalFilename :: string
  ud_size :: nat

record server_state =
  uploadedDocuments :: "uploadedDocument list"
  storage :: "string set"

record upload_file =
  filename :: string
  originalname :: string
  file_size :: nat
  sha256 :: string
  readable :: bool

record upload_req =
  req_file :: "upload_file option"
  body_pdfHash :: "string option"

datatype response =
    ErrorResponse nat string
  | UploadResponse bool string string uploadedDocument
  | SignResponse string string string

text \<open>
  \<open>UploadResponse exists url pdfId doc\<close> is \<open>{success: true, exists, url, pdfId, doc}\<close> and
  \<open>SignResponse url beforeHash afterHash\<close> is \<open>{success: true, url, beforeHash, afterHash}\<close>.
\<close>

definition findOne_pdfHash :: "uploadedDocument list \<Rightarrow> string \<Rightarrow> uploadedDocument option" where
  "findOne_pdfHash docs h = find (\<lambda>d. pdfHash d = h) docs"

definition create_uploaded ::
  "uploadedDocument list \<Rightarrow> string \<Rightarrow> string \<Rightarrow> string option \<Rightarrow> string \<Rightarrow> nat
    \<Rightarrow> js_error + uploadedDocument" where
  "create_uploaded docs pid path h orig sz =
     (if pid = [] \<or> path = [] \<or> \<not> str_truthy h
      then Inl (Thrown ''UploadedDocument validation failed'')
      else if pid \<in> set (map ud_pdfId docs)
      then Inl (Thrown ''E11000 duplicate key error'')
      else Inr \<lparr> ud_pdfId = pid, pdfPath = path, pdfHash = the h,
                 originalFilename = orig, ud_size = sz \<rparr>)"

text \<open>
  The value of the variable \<open>pdfHash\<close> after the first step of the handler: the form field
  when it is truthy, else the computed hash, else \<open>undefined\<close>.
\<close>

definition received_pdfHash :: "upload_req \<Rightarrow> upload_file \<Rightarrow> string option" where
  "received_pdfHash req f =
     (if str_truthy (body_pdfHash req) then body_pdfHash req
      else if readable f then Some (sha256 f) else None)"

definition upload_pdf :: "server_state \<Rightarrow> upload_req \<Rightarrow> response \<times> server_state" where
  "upload_pdf st req =
     (case req_file req of
        None \<Rightarrow> (ErrorResponse 400 ''No file uploaded'', st)
      | Some f \<Rightarrow>
          let pdfId = strip_pdf (filename f);
              publicPath = ''/storage/'' @ filename f;
              pdfHash0 = received_pdfHash req f;
              existing = (if str_truthy pdfHash0
                          then findOne_pdfHash (uploadedDocuments st) (the pdfHash0) else None)
          in case existing of
               Some e \<Rightarrow>
                 (UploadResponse True (pdfPath e) (ud_pdfId e) e,
                  st\<lparr>storage := storage st - {filename f}\<rparr>)
             | None \<Rightarrow>
                 (case create_uploaded (uploadedDocuments st) pdfId publicPath pdfHash0
                         (originalname f) (file_size f) of
                    Inl err \<Rightarrow> (ErrorResponse 500 (message_or err ''Upload failed''), st)
                  | Inr created \<Rightarrow>
                      (UploadResponse False publicPath pdfId created,
                       st\<lparr>uploadedDocuments := uploadedDocuments st @ [created]\<rparr>)))"

subsection \<open>POST /api/sign-pdf-multi\<close>

text \<open>
  The PDF library, the path module, the hash and the clock are outside the repository and
  are parameters: \<open>pdf_load\<close>, \<open>embedPng\<close>, \<open>embedJpg\<close>, \<open>getPage\<close>, \<open>drawImage\<close> and
  \<open>save\<close> return a value or throw. A page is named by a number. The handler tells three
  results of \<open>getPage\<close> apart: an exception, a falsy value (\<open>None\<close>) and a page. The
  document is mutated only by \<open>drawImage\<close>; the calls that returned are kept as a list,
  which \<open>save\<close> serialises. \<open>storage_path name\<close> is \<open>path.join(STORAGE_DIR, name)\<close>,
  \<open>files\<close> maps such a path to the file's bytes, \<open>now\<close> is \<open>Date.now()\<close> in decimal
  digits. \<open>writeFile\<close> succeeds, and \<open>DocumentModel\<close>, a mongoose model, is truthy;
  \<open>insertMany\<close> is not awaited, so the handler's part is the list of records it hands
  over. A missing \<open>pdfBox\<close> is \<open>None\<close>: destructuring it throws a TypeError. The fields
  of the request body carry the prefix \<open>mr_\<close>, those of an audit record
  (models/Document.js) the prefix \<open>ad_\<close>.
\<close>

record item =
  pageIndex :: jsval
  it_pdfBox :: "pdfBox option"

record multi_req =
  mr_pdfId :: "string option"
  mr_items :: "item list option"
  mr_signatureBase64 :: "string option"

type_synonym draw_call = "nat \<times> fitRect"

record 'doc pdf_env =
  storage_path :: "string \<Rightarrow> string"
  files :: "string \<Rightarrow> bytes option"
  sha256Hex :: "bytes \<Rightarrow> string"
  base64_decode :: "string \<Rightarrow> bytes"
  pdf_load :: "bytes \<Rightarrow> js_error + 'doc"
  embedPng :: "'doc \<Rightarrow> bytes \<Rightarrow> js_error + image"
  embedJpg :: "'doc \<Rightarrow> bytes \<Rightarrow> js_error + image"
  getPage :: "'doc \<Rightarrow> jsval \<Rightarrow> js_error + nat option"
  drawImage :: "'doc \<Rightarrow> nat \<Rightarrow> fitRect \<Rightarrow> js_error + unit"
  save :: "'doc \<Rightarrow> draw_call list \<Rightarrow> js_error + bytes"
  now :: string

record auditDoc =
  ad_pdfId :: string
  ad_pageIndex :: jsval
  ad_pdfPathOriginal :: string
  ad_pdfPathSigned :: string
  ad_beforeHash :: string
  ad_afterHash :: string
  ad_mime :: string

record sign_result =
  response :: response
  drawn :: "draw_call list"
  written :: "(string \<times> bytes) option"
  insertMany :: "auditDoc list"

text \<open>
  The loop over the items; \<open>continue\<close> is the recursive call with the draws unchanged. An
  exception of \<open>getPage\<close>, of the destructuring or of \<open>drawImage\<close> leaves the loop.
\<close>

fun draw_items ::
  "(jsval \<Rightarrow> js_error + nat option) \<Rightarrow> (nat \<Rightarrow> fitRect \<Rightarrow> js_error + unit) \<Rightarrow> image
    \<Rightarrow> item list \<Rightarrow> draw_call list \<Rightarrow> js_error + draw_call list" where
  "draw_items getPage_of drawImage_of img [] draws = Inr draws"
| "draw_items getPage_of drawImage_of img (it # its) draws =
     (case getPage_of (pageIndex it) of
        Inl err \<Rightarrow> Inl err
      | Inr None \<Rightarrow> draw_items getPage_of drawImage_of img its draws
      | Inr (Some page) \<Rightarrow>
          (case it_pdfBox it of
             None \<Rightarrow> Inl (Thrown ''Cannot destructure property of pdfBox as it is undefined.'')
           | Some box \<Rightarrow>
               (case drawImage_of page (fit img box) of
                  Inl err \<Rightarrow> Inl err
                | Inr ok \<Rightarrow>
                    draw_items getPage_of drawImage_of img its (draws @ [(page, fit img box)]))))"

definition failed :: "nat \<Rightarrow> string \<Rightarrow> sign_result" where
  "failed status msg =
     \<lparr> response = ErrorResponse status msg, drawn = [], written = None, insertMany = [] \<rparr>"

definition sign_pdf_multi :: "'doc pdf_env \<Rightarrow> multi_req \<Rightarrow> sign_result" where
  "sign_pdf_multi env req =
    (if \<not> str_truthy (mr_pdfId req) \<or> mr_items req = None \<or> mr_items req = Some []
        \<or> \<not> str_truthy (mr_signatureBase64 req)
     then failed 400 ''missing''
     else
       let pid = the (mr_pdfId req); its = the (mr_items req); sig = the (mr_signatureBase64 req);
           origPath = storage_path env (pid @ ''.pdf'')
       in case files env origPath of
            None \<Rightarrow> failed 400 (''original PDF not found: '' @ origPath)
          | Some bytes \<Rightarrow>
         let beforeHash = sha256Hex env bytes in
         case pdf_load env bytes of
            Inl err \<Rightarrow> failed 500 (message_or err ''Sign multi failed'')
          | Inr pdfDoc \<Rightarrow>
         let imgBytes = base64_decode env (base64_part sig) in
         case (if is_png sig then embedPng env pdfDoc imgBytes else embedJpg env pdfDoc imgBytes) of
            Inl err \<Rightarrow> failed 500 (message_or err ''Sign multi failed'')
          | Inr img \<Rightarrow>
         case draw_items (getPage env pdfDoc) (drawImage env pdfDoc) img its [] of
            Inl err \<Rightarrow> failed 500 (message_or err ''Sign multi failed'')
          | Inr draws \<Rightarrow>
         case save env pdfDoc draws of
            Inl err \<Rightarrow> failed 500 (message_or err ''Sign multi failed'')
          | Inr outBytes \<Rightarrow>
         let afterHash = sha256Hex env outBytes;
             outName = pid @ ''-signed-multi-'' @ now env @ ''.pdf'';
             outPath = storage_path env outName;
             baseOriginalPublic = ''/storage/'' @ basename origPath;
             baseSignedPublic = ''/storage/'' @ basename outPath;
             docsToCreate = map (\<lambda>it.
               \<lparr> ad_pdfId = pid, ad_pageIndex = pageIndex it,
                 ad_pdfPathOriginal = baseOriginalPublic, ad_pdfPathSigned = baseSignedPublic,
                 ad_beforeHash = beforeHash, ad_afterHash = afterHash,
                 ad_mime = (if is_png sig then ''image/png'' else ''image/jpeg'') \<rparr>) its
         in \<lparr> response = SignResponse baseSignedPublic beforeHash afterHash,
              drawn = draws, written = Some (outPath, outBytes), insertMany = docsToCreate \<rparr>)"

text \<open>The HTTP status of a response: \<open>res.json\<close> without \<open>res.status\<close> answers 200.\<close>

fun status :: "response \<Rightarrow> nat" where
  "status (ErrorResponse code msg) = code"
| "status r = 200"

text \<open>The draws that an item leads to when no call throws.\<close>

fun draws_of :: "(jsval \<Rightarrow> js_error + nat option) \<Rightarrow> image \<Rightarrow> item \<Rightarrow> draw_call list" where
  "draws_of getPage_of img it =
     (case (getPage_of (pageIndex it), it_pdfBox it) of
        (Inr (Some page), Some box) \<Rightarrow> [(page, fit img box)]
      | _ \<Rightarrow> [])"

text \<open>
  For the examples, the two library calls as pdf-lib has them. \<open>getPage\<close> of a document
  of two pages asserts that the index is a number (NaN is none) within \<open>0..1\<close> and throws
  otherwise; it then returns \<open>pages[index]\<close>, which is \<open>undefined\<close> for an index that is
  not whole. \<open>drawImage\<close> asserts that \<open>x\<close>, \<open>y\<close>, \<open>width\<close> and \<open>height\<close> are numbers,
  NaN again being none, and throws otherwise. The messages are shortened.
\<close>

fun getPage_of_two :: "jsval \<Rightarrow> js_error + nat option" where
  "getPage_of_two (JNum (Fin i)) =
     (if 0 \<le> i \<and> i \<le> 1
      then (if i = 0 then Inr (Some 0) else if i = 1 then Inr (Some 1) else Inr None)
      else Inl (Thrown ''`index` must be at least 0 and at most 1''))"
| "getPage_of_two (JNum NaN) = Inl (Thrown ''`index` must be of type `number`'')"
| "getPage_of_two (JNum v) = Inl (Thrown ''`index` must be at least 0 and at most 1'')"
| "getPage_of_two v = Inl (Thrown ''`index` must be of type `number`'')"

definition drawImage_checked :: "nat \<Rightarrow> fitRect \<Rightarrow> js_error + unit" where
  "drawImage_checked page r =
     (if fr_x r = NaN \<or> fr_y r = NaN \<or> fr_width r = NaN \<or> fr_height r = NaN
      then Inl (Thrown ''`options` must be of type `number`'')
      else Inr ())"

text \<open>An image, a target box and a rectangle all of whose fields are finite numbers.\<close>

definition finImage :: "real \<Rightarrow> real \<Rightarrow> image" where
  "finImage w h = \<lparr> img_width = Fin w, img_height = Fin h \<rparr>"

definition finBox :: "real \<Rightarrow> real \<Rightarrow> real \<Rightarrow> real \<Rightarrow> pdfBox" where
  "finBox x y w h = \<lparr> pb_x = Fin x, pb_y = Fin y, pb_width = Fin w, pb_height = Fin h \<rparr>"

definition finRect :: "real \<Rightarrow> real \<Rightarrow> real \<Rightarrow> real \<Rightarrow> fitRect" where
  "finRect x y w h = \<lparr> fr_x = Fin x, fr_y = Fin y, fr_width = Fin w, fr_height = Fin h \<rparr>"

text \<open>
  For the examples: a stored document, an upload of a file with the same SHA-256 whose
  form field carries another hash, and an environment of the signing handler around a
  stored document of two pages, with one request whose second item has a page index that
  is not whole and one whose second item lies outside the document.
\<close>

definition storedDoc :: uploadedDocument where
  "storedDoc =
     \<lparr> ud_pdfId = ''a-1700000000000'', pdfPath = ''/storage/a-1700000000000.pdf'',
       pdfHash = ''e3b0c44298fc1c149afbf4c8996fb92427ae41e4649b934ca495991b7852b855'',
       originalFilename = ''a.pdf'', ud_size = 0 \<rparr>"

definition storedState :: server_state where
  "storedState =
     \<lparr> uploadedDocuments = [storedDoc],
       storage = {''a-1700000000000.pdf'', ''a-1700000000001.pdf''} \<rparr>"

definition sameFile :: upload_file where
  "sameFile =
     \<lparr> filename = ''a-1700000000001.pdf'', originalname = ''a.pdf'', file_size = 0,
       sha256 = ''e3b0c44298fc1c149afbf4c8996fb92427ae41e4649b934ca495991b7852b855'',
       readable = True \<rparr>"

definition otherHash :: string where
  "otherHash = ''ba7816bf8f01cfea414140de5dae2223b00361a396177a9cb410ff61f20015ad''"

definition exampleEnv :: "unit pdf_env" where
  "exampleEnv =
     \<lparr> storage_path = (\<lambda>name. ''/srv/server/storage/'' @ name),
       files = (\<lambda>path. if path = ''/srv/server/storage/a.pdf'' then Some [37, 80, 68, 70] else None),
       sha256Hex = (\<lambda>b. if b = [37, 80, 68, 70] then ''before'' else ''after''),
       base64_decode = (\<lambda>s. map of_char s),
       pdf_load = (\<lambda>b. Inr ()),
       embedPng = (\<lambda>d b. Inr (finImage 200 100)),
       embedJpg = (\<lambda>d b. Inr (finImage 200 100)),
       getPage = (\<lambda>d. getPage_of_two),
       drawImage = (\<lambda>d. drawImage_checked),
       save = (\<lambda>d draws. Inr (37 # 80 # 68 # 70 # map fst draws)),
       now = ''1700000000002'' \<rparr>"

definition exampleItems :: "item list" where
  "exampleItems =
     [\<lparr> pageIndex = JNum (Fin 0), it_pdfBox = Some (finBox 10 10 50 50) \<rparr>,
      \<lparr> pageIndex = JNum (Fin (1 / 2)), it_pdfBox = Some (finBox 10 10 50 50) \<rparr>]"

definition exampleReq :: multi_req where
  "exampleReq =
     \<lparr> mr_pdfId = Some ''a'', mr_items = Some exampleItems,
       mr_signatureBase64 = Some ''data:image/png;base64,AAAA'' \<rparr>"

definition outsideItems :: "item list" where
  "outsideItems =
     [\<lparr> pageIndex = JNum (Fin 0), it_pdfBox = Some (finBox 10 10 50 50) \<rparr>,
      \<lparr> pageIndex = JNum (Fin 7), it_pdfBox = Some (finBox 10 10 50 50) \<rparr>]"

definition outsideReq :: multi_req where
  "outsideReq =
     \<lparr> mr_pdfId = Some ''a'', mr_items = Some outsideItems,
       mr_signatureBase64 = Some ''data:image/png;base64,AAAA'' \<rparr>"

text \<open>A size field that is at most \<open>m\<close>, or that the mapper replaces by 1.\<close>

fun dimAtMost :: "real \<Rightarrow> jsval \<Rightarrow> bool" where
  "dimAtMost m (JNum (Fin p)) = (p \<le> m)"
| "dimAtMost m (JNum PInf) = False"
| "dimAtMost m v = True"

section \<open>Properties of the coordinate mapper\<close>

subsection \<open>Rounding and clamping\<close>

lemma clamp01_Fin: "clamp01 (Fin a) = Fin (clampr a)"
  by (simp add: clamp01_def clampr_def max_def min_def)

lemma clamp01_nonfinite: "\<not> isFinite v \<Longrightarrow> clamp01 v = Fin 0"
  by (simp add: clamp01_def)

lemma clampr_range: "0 \<le> clampr a" "clampr a \<le> 1"
  by (simp_all add: clampr_def)

lemma clampr_id: "0 \<le> a \<Longrightarrow> a \<le> 1 \<Longrightarrow> clampr a = a"
  by (simp add: clampr_def)

lemma clampr_lipschitz: "\<bar>clampr a - clampr b\<bar> \<le> \<bar>a - b\<bar>"
  by (simp add: clampr_def max_def min_def)

lemma rnd_Fin: "rnd (Fin a) = Fin (round2 a)"
  by (simp add: rnd_def round2_def)

lemma toFixed6_unit: "0 \<le> a \<Longrightarrow> a \<le> 1 \<Longrightarrow> toFixed6 (Fin a) = Fin (round6 a)"
  by (simp add: round6_def)

lemma safe_gt: "js_gt (safe r) (Fin 0)"
  by (cases r) (simp_all add: safe_def)

lemma clamp01_div: "0 < r \<Longrightarrow> clamp01 (js_div v (Fin r)) = Fin (fracOf v r)"
  by (cases v) (simp_all add: fracOf_def clamp01_Fin clamp01_nonfinite signed_inf_def clampr_def)

lemma fracOf_range: "0 \<le> fracOf v r" "fracOf v r \<le> 1"
  by (cases v; simp add: fracOf_def clampr_range)+


lemma fracOf_bottom:
  "0 < r \<Longrightarrow> fracOf (js_sub (js_sub (Fin r) t) h) r = botFrac t h r"
  by (cases t; cases h) (simp_all add: botFrac_def fracOf_def js_sub_def)

lemma toFixed6_fracOf: "toFixed6 (Fin (fracOf v r)) = Fin (round6 (fracOf v r))"
  by (rule toFixed6_unit) (rule fracOf_range)+

lemma size_pos: "0 < r \<Longrightarrow> safe (Number (js_or (JNum (Fin r)) (JNum (Fin 1)))) = Fin r"
  by (simp add: js_or_def safe_def)


lemma round2_nonneg: "0 \<le> a \<Longrightarrow> 0 \<le> round2 a"
  unfolding round2_def by simp


lemma round2_close:
  assumes "\<bar>a - b\<bar> \<le> 1 / 100"
  shows "\<bar>round2 a - round2 b\<bar> \<le> 1 / 100"
proof -
  define k where "k = \<lfloor>a * 100 + 1 / 2\<rfloor>"
  define l where "l = \<lfloor>b * 100 + 1 / 2\<rfloor>"
  have ka: "of_int k \<le> a * 100 + 1 / 2" "a * 100 + 1 / 2 < of_int k + 1"
    unfolding k_def by linarith+
  have lb: "of_int l \<le> b * 100 + 1 / 2" "b * 100 + 1 / 2 < of_int l + 1"
    unfolding l_def by linarith+
  from assms have "\<bar>a * 100 - b * 100\<bar> \<le> 1" by linarith
  with ka lb have "real_of_int k < real_of_int l + 2" "real_of_int l < real_of_int k + 2"
    by linarith+
  then have "k < l + 2" "l < k + 2" by linarith+
  then have "\<bar>k - l\<bar> \<le> 1" by linarith
  then have "\<bar>real_of_int k - real_of_int l\<bar> \<le> 1" by linarith
  then show ?thesis
    unfolding round2_def k_def [symmetric] l_def [symmetric]
    by (simp add: field_simps)
qed

lemma round6_sandwich: "round6 a \<le> a + 1 / 2000000" "a - 1 / 2000000 < round6 a"
proof -
  have "of_int \<lfloor>a * 10 ^ 6 + 1 / 2\<rfloor> \<le> a * 10 ^ 6 + 1 / 2"
    and "a * 10 ^ 6 + 1 / 2 < of_int \<lfloor>a * 10 ^ 6 + 1 / 2\<rfloor> + 1"
    by linarith+
  then show "round6 a \<le> a + 1 / 2000000" "a - 1 / 2000000 < round6 a"
    unfolding round6_def by (simp_all add: field_simps)
qed

lemma round6_range:
  assumes "0 \<le> a" "a \<le> 1"
  shows "0 \<le> round6 a" "round6 a \<le> 1"
proof -
  show "0 \<le> round6 a" using assms unfolding round6_def by simp
  have "a * 10 ^ 6 + 1 / 2 < 1000001" using assms by simp
  then have "\<lfloor>a * 10 ^ 6 + 1 / 2\<rfloor> < 1000001" by linarith
  then have "\<lfloor>a * 10 ^ 6 + 1 / 2\<rfloor> \<le> 1000000" by linarith
  then have "real_of_int \<lfloor>a * 10 ^ 6 + 1 / 2\<rfloor> \<le> 1000000" by linarith
  then show "round6 a \<le> 1" unfolding round6_def by simp
qed

subsection \<open>The mapper on finite positive sizes\<close>

lemma mapper_finite:
  assumes "0 < rW" "0 < rH" "0 < pW" "0 < pH"
  shows "cssBoxToPdfPoints b (finSize rW rH) (finSize pW pH) =
    \<lparr> pdfBox = \<lparr> pb_x = Fin (round2 (fracOf (boxField (cb_left b)) rW * pW)),
                  pb_y = Fin (round2 (botFrac (boxField (cb_top b)) (boxField (cb_height b)) rH * pH)),
                  pb_width = Fin (round2 (fracOf (boxField (cb_width b)) rW * pW)),
                  pb_height = Fin (round2 (fracOf (boxField (cb_height b)) rH * pH)) \<rparr>,
      fractions = \<lparr> x_frac = Fin (round6 (fracOf (boxField (cb_left b)) rW)),
                     y_frac = Fin (round6 (fracOf (boxField (cb_top b)) rH)),
                     w_frac = Fin (round6 (fracOf (boxField (cb_width b)) rW)),
                     h_frac = Fin (round6 (fracOf (boxField (cb_height b)) rH)) \<rparr> \<rparr>"
  using assms
  by (simp add: cssBoxToPdfPoints_def Let_def finSize_def size_pos clamp01_div fracOf_bottom
      rnd_Fin toFixed6_fracOf boxField_def del: toFixed6.simps)

lemmas mapper_eval =
  cssBoxToPdfPoints_def Let_def js_or_def safe_def clamp01_def rnd_def js_sub_def
  finSize_def numBox_def

subsection \<open>The worked example\<close>

text \<open>
  Claim C1. For the pixel box \<open>{left:0, top:0, width:100, height:200}\<close> on a page rendered
  at 200 by 400 pixels, of 595 by 842 points, the mapper returns the fractions
  \<open>{x_frac:0, y_frac:0, w_frac:0.5, h_frac:0.5}\<close> and the point box
  \<open>{x:0, y:421, width:297.5, height:421}\<close>; \<open>y\<close> is the flipped vertical position
  \<open>clamp01((renderH - top - height) / renderH) * pageH\<close>, rounded to two decimals.
\<close>

theorem cssBoxToPdfPoints_example:
  "cssBoxToPdfPoints (numBox 0 0 100 200) (finSize 200 400) (finSize 595 842) =
     \<lparr> pdfBox = \<lparr> pb_x = Fin 0, pb_y = Fin 421, pb_width = Fin (595 / 2), pb_height = Fin 421 \<rparr>,
       fractions = \<lparr> x_frac = Fin 0, y_frac = Fin 0, w_frac = Fin (1 / 2), h_frac = Fin (1 / 2) \<rparr> \<rparr>
   \<and> pb_y (pdfBox (cssBoxToPdfPoints (numBox 0 0 100 200) (finSize 200 400) (finSize 595 842))) =
     rnd (js_mul (clamp01 (js_div (js_sub (js_sub (Fin 400) (Fin 0)) (Fin 200)) (Fin 400))) (Fin 842))"
  by (simp add: mapper_eval)

subsection \<open>Where the point box lies\<close>




lemma boxField_num: "boxField (JNum (Fin a)) = Fin a"
  by (simp add: boxField_def js_or_def)




subsection \<open>The round trip through the fractions\<close>

lemma round6_err: "\<bar>round6 a - a\<bar> \<le> 1 / 2000000"
  using round6_sandwich [of a] by linarith

lemma scaled_close:
  assumes "\<bar>f - c\<bar> \<le> 1 / 1000000" "0 < p" "p \<le> 10000"
  shows "\<bar>round2 (f * p) - round2 (c * p)\<bar> \<le> 1 / 100"
proof -
  have "\<bar>f * p - c * p\<bar> = \<bar>f - c\<bar> * p"
    using assms(2) by (simp add: abs_mult left_diff_distrib [symmetric])
  also have "\<dots> \<le> 1 / 1000000 * 10000"
    using assms by (intro mult_mono) simp_all
  finally show ?thesis by (intro round2_close) simp
qed

lemma clampr_flip:
  "0 \<le> u \<Longrightarrow> 0 \<le> v \<Longrightarrow> clampr (1 - u - v) = clampr (1 - clampr u - clampr v)"
  by (simp add: clampr_def max_def min_def)

lemma fracOf_rebuilt:
  assumes "0 < r" "0 \<le> f" "f \<le> 1"
  shows "fracOf (Fin (f * r)) r = f"
  using assms by (simp add: fracOf_def clampr_id)

lemma reconstruct_finite:
  "reconstructPixelBox \<lparr> x_frac = Fin a, y_frac = Fin b, w_frac = Fin c, h_frac = Fin d \<rparr> (finSize rW rH)
     = numBox (a * rW) (b * rH) (c * rW) (d * rH)"
  by (simp add: reconstructPixelBox_def finSize_def numBox_def)

lemma numBox_sel:
  "cb_left (numBox l t w h) = JNum (Fin l)" "cb_top (numBox l t w h) = JNum (Fin t)"
  "cb_width (numBox l t w h) = JNum (Fin w)" "cb_height (numBox l t w h) = JNum (Fin h)"
  by (simp_all add: numBox_def)

lemma botFrac_numeric:
  assumes "0 < r" "0 \<le> t" "0 \<le> h"
  shows "botFrac (Fin t) (Fin h) r = clampr (1 - clampr (t / r) - clampr (h / r))"
proof -
  have "(r - t - h) / r = 1 - t / r - h / r"
    using assms(1) by (simp add: diff_divide_distrib)
  then show ?thesis
    using assms by (simp add: botFrac_def clampr_flip)
qed

lemma botFrac_rebuilt:
  assumes "0 < r"
  shows "botFrac (Fin (f * r)) (Fin (g * r)) r = clampr (1 - f - g)"
proof -
  have "(r - f * r - g * r) / r = 1 - f - g"
    using assms(1) by (simp add: diff_divide_distrib)
  then show ?thesis
    by (simp add: botFrac_def)
qed

text \<open>
  Claim C5 says that, for every pixel box and all sizes, rebuilding a pixel box from the
  returned fractions and mapping it again reproduces the point box within 0.01 point in
  each field. The fractions keep \<open>top\<close> only after clamping, while \<open>y\<close> is computed from
  the unclamped \<open>top\<close>: for a box dragged above the page, \<open>top = -100\<close> and \<open>height = 200\<close> on
  a page rendered 400 pixels high, the first mapping gives \<open>y = 0.75 * 842 = 631.5\<close>, and
  the mapping of the rebuilt box (\<open>top = 0\<close>) gives \<open>y = 0.5 * 842 = 421\<close>.
\<close>

theorem box_above_page_counterexample:
  "\<not> within_tol (pb_y (pdfBox (roundTrip (numBox 0 (- 100) 100 200) (finSize 200 400) (finSize 595 842))))
                 (pb_y (pdfBox (cssBoxToPdfPoints (numBox 0 (- 100) 100 200) (finSize 200 400) (finSize 595 842))))"
  by (simp add: roundTrip_def reconstructPixelBox_def mapper_eval)

text \<open>
  Claim C5, amended. For every pixel box with finite numeric fields of magnitude at most
  \<open>10^9\<close> whose \<open>top\<close> and \<open>height\<close> are not negative, every rendered size with width
  and height between 1 and one million pixels, and every page size with positive width
  and height of at most 5000 points, rebuilding the pixel box from the returned fractions
  and mapping it again reproduces each field of the point box within 0.01 point.
\<close>

theorem roundTrip_within_tolerance:
  assumes "1 \<le> rW" "rW \<le> 1000000" "1 \<le> rH" "rH \<le> 1000000"
    and "0 < pW" "pW \<le> 5000" "0 < pH" "pH \<le> 5000"
    and "\<bar>l\<bar> \<le> 1000000000" "0 \<le> t" "t \<le> 1000000000"
    and "\<bar>w\<bar> \<le> 1000000000" "0 \<le> h" "h \<le> 1000000000"
  shows "within_tol (pb_x (pdfBox (roundTrip (numBox l t w h) (finSize rW rH) (finSize pW pH))))
                    (pb_x (pdfBox (cssBoxToPdfPoints (numBox l t w h) (finSize rW rH) (finSize pW pH))))
       \<and> within_tol (pb_y (pdfBox (roundTrip (numBox l t w h) (finSize rW rH) (finSize pW pH))))
                    (pb_y (pdfBox (cssBoxToPdfPoints (numBox l t w h) (finSize rW rH) (finSize pW pH))))
       \<and> within_tol (pb_width (pdfBox (roundTrip (numBox l t w h) (finSize rW rH) (finSize pW pH))))
                    (pb_width (pdfBox (cssBoxToPdfPoints (numBox l t w h) (finSize rW rH) (finSize pW pH))))
       \<and> within_tol (pb_height (pdfBox (roundTrip (numBox l t w h) (finSize rW rH) (finSize pW pH))))
                    (pb_height (pdfBox (cssBoxToPdfPoints (numBox l t w h) (finSize rW rH) (finSize pW pH))))"
proof -
  have rpos: "0 < rW" "0 < rH"
    using assms(1,3) by simp_all
  have wide: "pW \<le> 10000" "pH \<le> 10000"
    using assms(6,8) by simp_all
  note pos = rpos assms(5,7)
  define cx cy cw ch where "cx = clampr (l / rW)" and "cy = clampr (t / rH)"
    and "cw = clampr (w / rW)" and "ch = clampr (h / rH)"
  have rng: "0 \<le> round6 cx" "round6 cx \<le> 1" "0 \<le> round6 cy" "round6 cy \<le> 1"
    "0 \<le> round6 cw" "round6 cw \<le> 1" "0 \<le> round6 ch" "round6 ch \<le> 1"
    unfolding cx_def cy_def cw_def ch_def by (simp_all add: round6_range clampr_range)
  have fr: "fracOf (Fin l) rW = cx" "fracOf (Fin t) rH = cy" "fracOf (Fin w) rW = cw"
    "fracOf (Fin h) rH = ch"
    by (simp_all add: fracOf_def cx_def cy_def cw_def ch_def)
  have first: "cssBoxToPdfPoints (numBox l t w h) (finSize rW rH) (finSize pW pH) =
    \<lparr> pdfBox = \<lparr> pb_x = Fin (round2 (cx * pW)),
                  pb_y = Fin (round2 (clampr (1 - cy - ch) * pH)),
                  pb_width = Fin (round2 (cw * pW)),
                  pb_height = Fin (round2 (ch * pH)) \<rparr>,
      fractions = \<lparr> x_frac = Fin (round6 cx), y_frac = Fin (round6 cy),
                     w_frac = Fin (round6 cw), h_frac = Fin (round6 ch) \<rparr> \<rparr>"
    unfolding mapper_finite [OF pos] numBox_sel boxField_num fr
      botFrac_numeric [OF rpos(2) assms(10,13)]
    by (simp add: cy_def ch_def)
  have second: "pdfBox (roundTrip (numBox l t w h) (finSize rW rH) (finSize pW pH)) =
      \<lparr> pb_x = Fin (round2 (round6 cx * pW)),
        pb_y = Fin (round2 (clampr (1 - round6 cy - round6 ch) * pH)),
        pb_width = Fin (round2 (round6 cw * pW)),
        pb_height = Fin (round2 (round6 ch * pH)) \<rparr>"
    unfolding roundTrip_def first
    by (simp add: reconstruct_finite mapper_finite [OF pos] numBox_sel boxField_num
        fracOf_rebuilt rng rpos botFrac_rebuilt)
  have ex: "\<bar>round6 cx - cx\<bar> \<le> 1 / 1000000" and ew: "\<bar>round6 cw - cw\<bar> \<le> 1 / 1000000"
    and eh: "\<bar>round6 ch - ch\<bar> \<le> 1 / 1000000"
    using round6_err [of cx] round6_err [of cw] round6_err [of ch] by linarith+
  have "\<bar>clampr (1 - round6 cy - round6 ch) - clampr (1 - cy - ch)\<bar>
      \<le> \<bar>(1 - round6 cy - round6 ch) - (1 - cy - ch)\<bar>"
    by (rule clampr_lipschitz)
  also have "\<dots> \<le> 1 / 1000000"
    using round6_err [of cy] round6_err [of ch] by linarith
  finally have ey: "\<bar>clampr (1 - round6 cy - round6 ch) - clampr (1 - cy - ch)\<bar> \<le> 1 / 1000000" .
  show ?thesis
    unfolding second first
    using scaled_close [OF ex assms(5) wide(1)] scaled_close [OF ew assms(5) wide(1)]
      scaled_close [OF eh assms(7) wide(2)] scaled_close [OF ey assms(7) wide(2)]
    by simp
qed

theorem roundTrip_within_tolerance_witness:
  "(1::real) \<le> 200 \<and> (200::real) \<le> 1000000 \<and> (1::real) \<le> 400 \<and> (400::real) \<le> 1000000
   \<and> (0::real) < 595 \<and> (595::real) \<le> 5000 \<and> (0::real) < 842 \<and> (842::real) \<le> 5000
   \<and> \<bar>70::real\<bar> \<le> 1000000000 \<and> (0::real) \<le> 30 \<and> (30::real) \<le> 1000000000
   \<and> \<bar>100::real\<bar> \<le> 1000000000 \<and> (0::real) \<le> 200 \<and> (200::real) \<le> 1000000000
   \<and> within_tol (pb_x (pdfBox (roundTrip (numBox 70 30 100 200) (finSize 200 400) (finSize 595 842))))
                 (pb_x (pdfBox (cssBoxToPdfPoints (numBox 70 30 100 200) (finSize 200 400) (finSize 595 842))))
   \<and> within_tol (pb_y (pdfBox (roundTrip (numBox 70 30 100 200) (finSize 200 400) (finSize 595 842))))
                 (pb_y (pdfBox (cssBoxToPdfPoints (numBox 70 30 100 200) (finSize 200 400) (finSize 595 842))))
   \<and> within_tol (pb_width (pdfBox (roundTrip (numBox 70 30 100 200) (finSize 200 400) (finSize 595 842))))
                 (pb_width (pdfBox (cssBoxToPdfPoints (numBox 70 30 100 200) (finSize 200 400) (finSize 595 842))))
   \<and> within_tol (pb_height (pdfBox (roundTrip (numBox 70 30 100 200) (finSize 200 400) (finSize 595 842))))
                 (pb_height (pdfBox (cssBoxToPdfPoints (numBox 70 30 100 200) (finSize 200 400) (finSize 595 842))))"
proof -
  have s: "(1::real) \<le> 200" "(200::real) \<le> 1000000" "(1::real) \<le> 400" "(400::real) \<le> 1000000"
    "(0::real) < 595" "(595::real) \<le> 5000" "(0::real) < 842" "(842::real) \<le> 5000"
    "\<bar>70::real\<bar> \<le> 1000000000" "(0::real) \<le> 30" "(30::real) \<le> 1000000000"
    "\<bar>100::real\<bar> \<le> 1000000000" "(0::real) \<le> 200" "(200::real) \<le> 1000000000"
    by simp_all
  from roundTrip_within_tolerance [OF s] s show ?thesis by blast
qed

subsection \<open>Totality\<close>

lemma clamp01_unit: "\<exists>c. clamp01 v = Fin c \<and> 0 \<le> c \<and> c \<le> 1"
  by (cases v) (simp_all add: clamp01_Fin clamp01_nonfinite clampr_range)

lemma toFixed6_clamp01: "js_le (Fin 0) (toFixed6 (clamp01 v)) \<and> js_le (toFixed6 (clamp01 v)) (Fin 1)"
proof -
  obtain c where c: "clamp01 v = Fin c" "0 \<le> c" "c \<le> 1"
    using clamp01_unit by blast
  then show ?thesis
    using round6_range [of c] by (simp add: toFixed6_unit not_less del: toFixed6.simps)
qed

lemma safe_cases: "(\<exists>s. safe n = Fin s \<and> 0 < s) \<or> safe n = PInf"
  by (cases n) (simp_all add: safe_def)

lemma safe_dim_default:
  "\<not> isPositiveNumber v \<Longrightarrow> safe (Number (js_or v (JNum (Fin 1)))) = Fin 1"
  by (cases v) (auto simp: js_or_def safe_def)

lemma safe_dim_one: "safe (Number (js_or (JNum (Fin 1)) (JNum (Fin 1)))) = Fin 1"
  by (simp add: js_or_def safe_def)

lemma rnd_scaled_clamp01:
  assumes "safe n \<noteq> PInf"
  shows "isFinite (rnd (js_mul (clamp01 v) (safe n))) \<and> js_le (Fin 0) (rnd (js_mul (clamp01 v) (safe n)))"
proof -
  obtain c where c: "clamp01 v = Fin c" "0 \<le> c" "c \<le> 1"
    using clamp01_unit by blast
  obtain s where s: "safe n = Fin s" "0 < s"
    using safe_cases [of n] assms by blast
  have "0 \<le> c * s" using c s by simp
  then show ?thesis
    unfolding c s by (simp add: rnd_Fin round2_nonneg not_less)
qed

lemma coerced_fields:
  "\<not> isPositiveNumber v \<Longrightarrow>
     cssBoxToPdfPoints b (rs\<lparr>sz_width := v\<rparr>) ps = cssBoxToPdfPoints b (rs\<lparr>sz_width := JNum (Fin 1)\<rparr>) ps"
  "\<not> isPositiveNumber v \<Longrightarrow>
     cssBoxToPdfPoints b (rs\<lparr>sz_height := v\<rparr>) ps = cssBoxToPdfPoints b (rs\<lparr>sz_height := JNum (Fin 1)\<rparr>) ps"
  "\<not> isPositiveNumber v \<Longrightarrow>
     cssBoxToPdfPoints b rs (ps\<lparr>sz_width := v\<rparr>) = cssBoxToPdfPoints b rs (ps\<lparr>sz_width := JNum (Fin 1)\<rparr>)"
  "\<not> isPositiveNumber v \<Longrightarrow>
     cssBoxToPdfPoints b rs (ps\<lparr>sz_height := v\<rparr>) = cssBoxToPdfPoints b rs (ps\<lparr>sz_height := JNum (Fin 1)\<rparr>)"
  by (simp_all add: cssBoxToPdfPoints_def Let_def safe_dim_default safe_dim_one del: toFixed6.simps)

text \<open>
  Claim C6. The mapper is total. Every operation it performs is defined on every value of
  the model, so it returns a result for every input. Its two divisors are \<open>safe\<close> values,
  which are greater than zero, so it never divides by zero. A size field that is not a
  positive number (zero, negative, NaN, absent, not a number at all) gives the same result
  as the size 1. The four fractions always lie in \<open>[0, 1]\<close>. The point box is finite and
  not negative for a page size of at most \<open>10^300\<close> points; beyond that the
  multiplication by 100 in \<open>rnd\<close> may give \<open>Infinity\<close>, which is returned like any other
  number. \<open>clamp01\<close> returns 0 for a non-finite argument and clamps a finite one to
  \<open>[0, 1]\<close>.
\<close>

theorem cssBoxToPdfPoints_total:
  "js_gt (safe n) (Fin 0)
   \<and> (\<not> isPositiveNumber v \<longrightarrow>
        cssBoxToPdfPoints b (rs\<lparr>sz_width := v\<rparr>) ps = cssBoxToPdfPoints b (rs\<lparr>sz_width := JNum (Fin 1)\<rparr>) ps
      \<and> cssBoxToPdfPoints b (rs\<lparr>sz_height := v\<rparr>) ps = cssBoxToPdfPoints b (rs\<lparr>sz_height := JNum (Fin 1)\<rparr>) ps
      \<and> cssBoxToPdfPoints b rs (ps\<lparr>sz_width := v\<rparr>) = cssBoxToPdfPoints b rs (ps\<lparr>sz_width := JNum (Fin 1)\<rparr>)
      \<and> cssBoxToPdfPoints b rs (ps\<lparr>sz_height := v\<rparr>) = cssBoxToPdfPoints b rs (ps\<lparr>sz_height := JNum (Fin 1)\<rparr>))
   \<and> js_le (Fin 0) (x_frac (fractions (cssBoxToPdfPoints b rs ps)))
   \<and> js_le (x_frac (fractions (cssBoxToPdfPoints b rs ps))) (Fin 1)
   \<and> js_le (Fin 0) (y_frac (fractions (cssBoxToPdfPoints b rs ps)))
   \<and> js_le (y_frac (fractions (cssBoxToPdfPoints b rs ps))) (Fin 1)
   \<and> js_le (Fin 0) (w_frac (fractions (cssBoxToPdfPoints b rs ps)))
   \<and> js_le (w_frac (fractions (cssBoxToPdfPoints b rs ps))) (Fin 1)
   \<and> js_le (Fin 0) (h_frac (fractions (cssBoxToPdfPoints b rs ps)))
   \<and> js_le (h_frac (fractions (cssBoxToPdfPoints b rs ps))) (Fin 1)
   \<and> (dimAtMost (10 ^ 300) (sz_width ps) \<longrightarrow>
        isFinite (pb_x (pdfBox (cssBoxToPdfPoints b rs ps)))
      \<and> js_le (Fin 0) (pb_x (pdfBox (cssBoxToPdfPoints b rs ps)))
      \<and> isFinite (pb_width (pdfBox (cssBoxToPdfPoints b rs ps)))
      \<and> js_le (Fin 0) (pb_width (pdfBox (cssBoxToPdfPoints b rs ps))))
   \<and> (dimAtMost (10 ^ 300) (sz_height ps) \<longrightarrow>
        isFinite (pb_y (pdfBox (cssBoxToPdfPoints b rs ps)))
      \<and> js_le (Fin 0) (pb_y (pdfBox (cssBoxToPdfPoints b rs ps)))
      \<and> isFinite (pb_height (pdfBox (cssBoxToPdfPoints b rs ps)))
      \<and> js_le (Fin 0) (pb_height (pdfBox (cssBoxToPdfPoints b rs ps))))
   \<and> (\<not> isFinite n \<longrightarrow> clamp01 n = Fin 0)
   \<and> clamp01 (Fin a) = Fin (max 0 (min 1 a))"
proof -
  have fr: "js_le (Fin 0) (x_frac (fractions (cssBoxToPdfPoints b rs ps)))"
    "js_le (x_frac (fractions (cssBoxToPdfPoints b rs ps))) (Fin 1)"
    "js_le (Fin 0) (y_frac (fractions (cssBoxToPdfPoints b rs ps)))"
    "js_le (y_frac (fractions (cssBoxToPdfPoints b rs ps))) (Fin 1)"
    "js_le (Fin 0) (w_frac (fractions (cssBoxToPdfPoints b rs ps)))"
    "js_le (w_frac (fractions (cssBoxToPdfPoints b rs ps))) (Fin 1)"
    "js_le (Fin 0) (h_frac (fractions (cssBoxToPdfPoints b rs ps)))"
    "js_le (h_frac (fractions (cssBoxToPdfPoints b rs ps))) (Fin 1)"
    by (simp_all add: cssBoxToPdfPoints_def Let_def toFixed6_clamp01 del: toFixed6.simps)
  have inf: "safe (Number (js_or u (JNum (Fin 1)))) \<noteq> PInf" if "dimAtMost (10 ^ 300) u" for u
  proof (cases u)
    case (JNum n)
    with that show ?thesis by (cases n) (auto simp: js_or_def safe_def)
  qed (simp_all add: js_or_def safe_def)
  have hor: "isFinite (pb_x (pdfBox (cssBoxToPdfPoints b rs ps)))
      \<and> js_le (Fin 0) (pb_x (pdfBox (cssBoxToPdfPoints b rs ps)))
      \<and> isFinite (pb_width (pdfBox (cssBoxToPdfPoints b rs ps)))
      \<and> js_le (Fin 0) (pb_width (pdfBox (cssBoxToPdfPoints b rs ps)))"
    if "dimAtMost (10 ^ 300) (sz_width ps)"
    using rnd_scaled_clamp01 [OF inf [OF that]]
    by (simp add: cssBoxToPdfPoints_def Let_def)
  have ver: "isFinite (pb_y (pdfBox (cssBoxToPdfPoints b rs ps)))
      \<and> js_le (Fin 0) (pb_y (pdfBox (cssBoxToPdfPoints b rs ps)))
      \<and> isFinite (pb_height (pdfBox (cssBoxToPdfPoints b rs ps)))
      \<and> js_le (Fin 0) (pb_height (pdfBox (cssBoxToPdfPoints b rs ps)))"
    if "dimAtMost (10 ^ 300) (sz_height ps)"
    using rnd_scaled_clamp01 [OF inf [OF that]]
    by (simp add: cssBoxToPdfPoints_def Let_def)
  have cl: "clamp01 (Fin a) = Fin (max 0 (min 1 a))"
    by (simp add: clamp01_Fin clampr_def)
  from safe_gt [of n] coerced_fields [of v b rs ps] fr hor ver clamp01_nonfinite [of n] cl
  show ?thesis by blast
qed

theorem cssBoxToPdfPoints_total_witness:
  "\<not> isPositiveNumber (JNum (Fin (- 3)))
   \<and> cssBoxToPdfPoints (numBox 0 0 100 200) ((finSize 200 400)\<lparr>sz_width := JNum (Fin (- 3))\<rparr>) (finSize 595 842)
     = cssBoxToPdfPoints (numBox 0 0 100 200) ((finSize 200 400)\<lparr>sz_width := JNum (Fin 1)\<rparr>) (finSize 595 842)
   \<and> dimAtMost (10 ^ 300) (sz_width (finSize 595 842))
   \<and> isFinite (pb_x (pdfBox (cssBoxToPdfPoints (numBox 0 0 100 200) (finSize 200 400) (finSize 595 842))))
   \<and> dimAtMost (10 ^ 300) (sz_height (finSize 595 842))
   \<and> isFinite (pb_y (pdfBox (cssBoxToPdfPoints (numBox 0 0 100 200) (finSize 200 400) (finSize 595 842))))
   \<and> \<not> isFinite PInf
   \<and> clamp01 PInf = Fin 0"
proof -
  have h: "\<not> isPositiveNumber (JNum (Fin (- 3)))" "dimAtMost (10 ^ 300) (sz_width (finSize 595 842))"
    "dimAtMost (10 ^ 300) (sz_height (finSize 595 842))" "\<not> isFinite PInf"
    by (simp_all add: finSize_def)
  from cssBoxToPdfPoints_total [of PInf "JNum (Fin (- 3))" "numBox 0 0 100 200"
      "finSize 200 400" "finSize 595 842" 0] h
  show ?thesis by blast
qed

subsection \<open>Absent and non-numeric pixel box fields\<close>

lemma boxField_falsy: "\<not> js_truthy v \<Longrightarrow> Number (js_or v (JNum (Fin 0))) = Fin 0"
  by (simp add: js_or_def)

lemma boxField_zero: "Number (js_or (JNum (Fin 0)) (JNum (Fin 0))) = Fin 0"
  by (simp add: js_or_def)

lemma boxField_opaque:
  "js_truthy v \<Longrightarrow> Number v = NaN \<Longrightarrow> Number (js_or v (JNum (Fin 0))) = NaN"
  by (simp add: js_or_def)

lemma clamp01_NaN_div: "clamp01 (js_div NaN d) = Fin 0"
  by (simp add: clamp01_def)

lemma clamp01_zero_div: "js_gt d (Fin 0) \<Longrightarrow> clamp01 (js_div (Fin 0) d) = Fin 0"
  by (cases d) (simp_all add: clamp01_def)

lemma frac_defaulted:
  assumes "\<not> js_truthy v \<or> Number v = NaN"
  shows "clamp01 (js_div (Number (js_or v (JNum (Fin 0)))) (safe n)) =
         clamp01 (js_div (Number (js_or (JNum (Fin 0)) (JNum (Fin 0)))) (safe n))"
proof (cases "js_truthy v")
  case True
  with assms show ?thesis
    by (simp add: boxField_opaque boxField_zero clamp01_nonfinite clamp01_zero_div safe_gt)
next
  case False
  then show ?thesis by (simp add: boxField_falsy boxField_zero)
qed

lemma left_defaulted:
  assumes "\<not> js_truthy v \<or> Number v = NaN"
  shows "cssBoxToPdfPoints (b\<lparr>cb_left := v\<rparr>) rs ps = cssBoxToPdfPoints (b\<lparr>cb_left := JNum (Fin 0)\<rparr>) rs ps"
  by (simp add: cssBoxToPdfPoints_def Let_def frac_defaulted [OF assms] del: toFixed6.simps)

lemma width_defaulted:
  assumes "\<not> js_truthy v \<or> Number v = NaN"
  shows "cssBoxToPdfPoints (b\<lparr>cb_width := v\<rparr>) rs ps = cssBoxToPdfPoints (b\<lparr>cb_width := JNum (Fin 0)\<rparr>) rs ps"
  by (simp add: cssBoxToPdfPoints_def Let_def frac_defaulted [OF assms] del: toFixed6.simps)

lemma top_height_defaulted:
  assumes "\<not> js_truthy v"
  shows "cssBoxToPdfPoints (b\<lparr>cb_top := v\<rparr>) rs ps = cssBoxToPdfPoints (b\<lparr>cb_top := JNum (Fin 0)\<rparr>) rs ps"
    and "cssBoxToPdfPoints (b\<lparr>cb_height := v\<rparr>) rs ps = cssBoxToPdfPoints (b\<lparr>cb_height := JNum (Fin 0)\<rparr>) rs ps"
  by (simp_all add: cssBoxToPdfPoints_def Let_def boxField_falsy [OF assms] boxField_zero
      del: toFixed6.simps)

lemma js_sub_NaN: "js_sub a NaN = NaN" "js_sub NaN c = NaN"
  by (cases a; simp add: js_sub_def)+

lemma opaque_vertical:
  assumes "js_truthy v" "Number v = NaN" "sz_height ps \<noteq> JNum PInf"
  shows "pb_y (pdfBox (cssBoxToPdfPoints (b\<lparr>cb_top := v\<rparr>) rs ps)) = Fin 0"
    and "pb_y (pdfBox (cssBoxToPdfPoints (b\<lparr>cb_height := v\<rparr>) rs ps)) = Fin 0"
proof -
  have "safe (Number (js_or (sz_height ps) (JNum (Fin 1)))) \<noteq> PInf"
    using assms(3) by (cases "sz_height ps") (auto simp: js_or_def safe_def)
  then obtain s where s: "safe (Number (js_or (sz_height ps) (JNum (Fin 1)))) = Fin s"
    using safe_cases by blast
  have z: "rnd (Fin 0) = Fin 0"
    by (simp add: rnd_def)
  show "pb_y (pdfBox (cssBoxToPdfPoints (b\<lparr>cb_top := v\<rparr>) rs ps)) = Fin 0"
    and "pb_y (pdfBox (cssBoxToPdfPoints (b\<lparr>cb_height := v\<rparr>) rs ps)) = Fin 0"
    by (simp_all add: cssBoxToPdfPoints_def Let_def boxField_opaque [OF assms(1,2)]
        js_sub_NaN clamp01_nonfinite s z)
qed

text \<open>
  Claim C7 says that a pixel box field that is absent or not numeric is treated as 0: the
  output equals that of the same call with the field replaced by 0. A field is defaulted
  by \<open>Number(field || 0)\<close>, which replaces falsy values only. A truthy value that is not
  numeric, such as the string \<open>"abc"\<close>, becomes NaN. In \<open>top\<close> this NaN reaches
  \<open>bottomPx = safeRH - top - heightPx\<close>, and the clamp turns it into \<open>y = 0\<close>, whereas
  \<open>top = 0\<close> gives \<open>y = 421\<close> for the box of the worked example.
\<close>

theorem non_numeric_top_counterexample:
  "cssBoxToPdfPoints ((numBox 0 0 100 200)\<lparr>cb_top := JOpaque\<rparr>) (finSize 200 400) (finSize 595 842)
   \<noteq> cssBoxToPdfPoints ((numBox 0 0 100 200)\<lparr>cb_top := JNum (Fin 0)\<rparr>) (finSize 200 400) (finSize 595 842)"
  by (simp add: mapper_eval)

text \<open>
  Claim C7, amended. No field value raises an error. A pixel box field that is absent or
  otherwise falsy (\<open>undefined\<close>, \<open>null\<close>, \<open>false\<close>, NaN) gives the output of the same call
  with the field replaced by 0. So does a truthy non-numeric \<open>left\<close> or \<open>width\<close> (one
  that \<open>Number\<close> turns into NaN). A truthy non-numeric \<open>top\<close> or \<open>height\<close> gives \<open>y = 0\<close>
  in the point box (for a page height other than \<open>Infinity\<close>).
\<close>

theorem pixelBox_field_defaults:
  "((\<not> js_truthy v \<or> Number v = NaN) \<longrightarrow>
      cssBoxToPdfPoints (b\<lparr>cb_left := v\<rparr>) rs ps = cssBoxToPdfPoints (b\<lparr>cb_left := JNum (Fin 0)\<rparr>) rs ps
    \<and> cssBoxToPdfPoints (b\<lparr>cb_width := v\<rparr>) rs ps = cssBoxToPdfPoints (b\<lparr>cb_width := JNum (Fin 0)\<rparr>) rs ps)
   \<and> (\<not> js_truthy v \<longrightarrow>
      cssBoxToPdfPoints (b\<lparr>cb_top := v\<rparr>) rs ps = cssBoxToPdfPoints (b\<lparr>cb_top := JNum (Fin 0)\<rparr>) rs ps
    \<and> cssBoxToPdfPoints (b\<lparr>cb_height := v\<rparr>) rs ps = cssBoxToPdfPoints (b\<lparr>cb_height := JNum (Fin 0)\<rparr>) rs ps)
   \<and> (js_truthy v \<and> Number v = NaN \<and> sz_height ps \<noteq> JNum PInf \<longrightarrow>
      pb_y (pdfBox (cssBoxToPdfPoints (b\<lparr>cb_top := v\<rparr>) rs ps)) = Fin 0
    \<and> pb_y (pdfBox (cssBoxToPdfPoints (b\<lparr>cb_height := v\<rparr>) rs ps)) = Fin 0)"
  using left_defaulted [of v b rs ps] width_defaulted [of v b rs ps]
    top_height_defaulted [of v b rs ps] opaque_vertical [of v ps b rs]
  by blast

theorem pixelBox_field_defaults_witness:
  "\<not> js_truthy JUndefined
   \<and> cssBoxToPdfPoints ((numBox 10 20 100 200)\<lparr>cb_left := JUndefined\<rparr>) (finSize 200 400) (finSize 595 842)
     = cssBoxToPdfPoints ((numBox 10 20 100 200)\<lparr>cb_left := JNum (Fin 0)\<rparr>) (finSize 200 400) (finSize 595 842)
   \<and> cssBoxToPdfPoints ((numBox 10 20 100 200)\<lparr>cb_top := JUndefined\<rparr>) (finSize 200 400) (finSize 595 842)
     = cssBoxToPdfPoints ((numBox 10 20 100 200)\<lparr>cb_top := JNum (Fin 0)\<rparr>) (finSize 200 400) (finSize 595 842)
   \<and> js_truthy JOpaque \<and> Number JOpaque = NaN \<and> sz_height (finSize 595 842) \<noteq> JNum PInf
   \<and> pb_y (pdfBox (cssBoxToPdfPoints ((numBox 10 20 100 200)\<lparr>cb_top := JOpaque\<rparr>) (finSize 200 400) (finSize 595 842)))
     = Fin 0"
proof -
  have h: "\<not> js_truthy JUndefined" "js_truthy JOpaque" "Number JOpaque = NaN"
    "sz_height (finSize 595 842) \<noteq> JNum PInf"
    by (simp_all add: finSize_def)
  from pixelBox_field_defaults [of JUndefined "numBox 10 20 100 200" "finSize 200 400" "finSize 595 842"]
    pixelBox_field_defaults [of JOpaque "numBox 10 20 100 200" "finSize 200 400" "finSize 595 842"] h
  show ?thesis by blast
qed

section \<open>Properties of the fit computation\<close>

lemmas fit_eval = fit_def Let_def js_sub_def finImage_def finBox_def finRect_def

lemma fit_finite:
  assumes "iw \<noteq> 0" "ih \<noteq> 0" "bh \<noteq> 0"
  shows "fit (finImage iw ih) (finBox x y bw bh) =
     (if iw / ih > bw / bh
      then finRect (x + (bw - bw) / 2) (y + (bh - bw / (iw / ih)) / 2) bw (bw / (iw / ih))
      else finRect (x + (bw - bh * (iw / ih)) / 2) (y + (bh - bh) / 2) (bh * (iw / ih)) bh)"
  using assms by (auto simp: fit_eval signed_inf_def)





subsection \<open>Degenerate dimensions\<close>

lemma fit_zero_image_height:
  assumes "0 < iw" "0 < bw" "0 < bh"
  shows "fit (finImage iw 0) (finBox x y bw bh) = finRect x (y + bh / 2) bw 0"
  using assms by (simp add: fit_eval signed_inf_def)

lemma fit_negative_box_height:
  assumes "0 < iw" "0 < ih" "0 < bw" "bh < 0"
  shows "fit (finImage iw ih) (finBox x y bw bh) =
     finRect x (y + (bh - bw / (iw / ih)) / 2) bw (bw / (iw / ih))"
proof -
  have "bw / bh < 0"
    using assms by (simp add: divide_pos_neg)
  moreover have "0 < iw / ih"
    using assms by simp
  ultimately have "iw / ih > bw / bh"
    by linarith
  then show ?thesis
    using fit_finite [of iw ih bh x y bw] assms by simp
qed

lemma fit_empty_image: "fr_width (fit (finImage 0 0) box) = NaN"
  by (cases "pb_height box") (simp_all add: fit_eval signed_inf_def)

lemma draw_items_single:
  assumes "getPage_of (pageIndex it) = Inr (Some page)" "it_pdfBox it = Some box"
  shows "drawImage_of page (fit img box) = Inr u \<Longrightarrow>
      draw_items getPage_of drawImage_of img [it] draws = Inr (draws @ [(page, fit img box)])"
    and "drawImage_of page (fit img box) = Inl err \<Longrightarrow>
      draw_items getPage_of drawImage_of img [it] draws = Inl err"
  using assms by simp_all

text \<open>
  Claim C4 says that a fit with a zero or negative dimension, such as an image of height
  0, raises an invalid-geometry error. None of the four copies of the block checks its
  operands and the arithmetic cannot throw: with the image 100 by 0, \<open>imageRatio\<close> is
  \<open>Infinity\<close>, the fit is width-bound with \<open>drawHeight = 50 / Infinity = 0\<close>, and the loop
  of \<open>/api/sign-pdf-multi\<close> hands the collapsed rectangle
  \<open>{x:10, y:35, width:50, height:0}\<close> to \<open>drawImage\<close>, which accepts it.
\<close>

theorem fit_zero_height_counterexample:
  "draw_items getPage_of_two drawImage_checked (finImage 100 0)
     [\<lparr> pageIndex = JNum (Fin 0), it_pdfBox = Some (finBox 10 10 50 50) \<rparr>] []
   = Inr [(0, finRect 10 35 50 0)]"
  by (simp add: fit_eval signed_inf_def drawImage_checked_def)

text \<open>
  Claim C4, amended. The fit checks nothing and raises no error of its own: for every
  image size and every target box, zero and negative dimensions included, the signing
  loop hands the rectangle that the arithmetic yields to \<open>page.drawImage\<close>, and an error
  reaches the caller only when that library call throws, as the library's own error.
  With magnitudes between \<open>10^-6\<close> and \<open>10^6\<close> (an image width of at least 1): an image
  of height 0 in a box of positive width and height gives the collapsed rectangle
  \<open>{x, y + box.height / 2, box.width, 0}\<close>; a box of negative height gives, for an image
  of positive size, the width-bound rectangle of positive height
  \<open>box.width / imageRatio\<close>. An image 0 by 0 gives the width NaN.
\<close>

theorem fit_has_no_validation:
  "(getPage_of (pageIndex it) = Inr (Some page) \<and> it_pdfBox it = Some box
      \<and> drawImage_of page (fit img box) = Inr u \<longrightarrow>
      draw_items getPage_of drawImage_of img [it] draws = Inr (draws @ [(page, fit img box)]))
   \<and> (getPage_of (pageIndex it) = Inr (Some page) \<and> it_pdfBox it = Some box
      \<and> drawImage_of page (fit img box) = Inl err \<longrightarrow>
      draw_items getPage_of drawImage_of img [it] draws = Inl err)
   \<and> (1 \<le> iw \<and> iw \<le> 1000000 \<and> 1 / 1000000 \<le> bw \<and> bw \<le> 1000000
      \<and> \<bar>x\<bar> \<le> 1000000 \<and> \<bar>y\<bar> \<le> 1000000 \<longrightarrow>
        (1 / 1000000 \<le> bh \<and> bh \<le> 1000000 \<longrightarrow>
           fit (finImage iw 0) (finBox x y bw bh) = finRect x (y + bh / 2) bw 0)
      \<and> (1 \<le> ih \<and> ih \<le> 1000000 \<and> - 1000000 \<le> bh \<and> bh \<le> - (1 / 1000000) \<longrightarrow>
           fit (finImage iw ih) (finBox x y bw bh) =
             finRect x (y + (bh - bw / (iw / ih)) / 2) bw (bw / (iw / ih))))
   \<and> fr_width (fit (finImage 0 0) box) = NaN"
proof -
  have zero: "fit (finImage iw 0) (finBox x y bw bh) = finRect x (y + bh / 2) bw 0"
    if "1 \<le> iw" "1 / 1000000 \<le> bw" "1 / 1000000 \<le> bh"
    using that by (intro fit_zero_image_height) simp_all
  have neg: "fit (finImage iw ih) (finBox x y bw bh) =
      finRect x (y + (bh - bw / (iw / ih)) / 2) bw (bw / (iw / ih))"
    if "1 \<le> iw" "1 / 1000000 \<le> bw" "1 \<le> ih" "bh \<le> - (1 / 1000000)"
    using that by (intro fit_negative_box_height) simp_all
  from draw_items_single [of getPage_of it page box drawImage_of img] zero neg
    fit_empty_image [of box]
  show ?thesis by blast
qed

theorem fit_has_no_validation_witness:
  "getPage_of_two (pageIndex \<lparr> pageIndex = JNum (Fin 0), it_pdfBox = Some (finBox 10 10 50 50) \<rparr>) = Inr (Some 0)
   \<and> it_pdfBox \<lparr> pageIndex = JNum (Fin 0), it_pdfBox = Some (finBox 10 10 50 50) \<rparr> = Some (finBox 10 10 50 50)
   \<and> drawImage_checked 0 (fit (finImage 100 0) (finBox 10 10 50 50)) = Inr ()
   \<and> draw_items getPage_of_two drawImage_checked (finImage 100 0)
        [\<lparr> pageIndex = JNum (Fin 0), it_pdfBox = Some (finBox 10 10 50 50) \<rparr>] []
      = Inr ([] @ [(0, fit (finImage 100 0) (finBox 10 10 50 50))])
   \<and> drawImage_checked 0 (fit (finImage 0 0) (finBox 10 10 50 50))
      = Inl (Thrown ''`options` must be of type `number`'')
   \<and> draw_items getPage_of_two drawImage_checked (finImage 0 0)
        [\<lparr> pageIndex = JNum (Fin 0), it_pdfBox = Some (finBox 10 10 50 50) \<rparr>] []
      = Inl (Thrown ''`options` must be of type `number`'')
   \<and> (1::real) \<le> 100 \<and> (100::real) \<le> 1000000 \<and> (1::real) / 1000000 \<le> 50 \<and> (50::real) \<le> 1000000
   \<and> \<bar>10::real\<bar> \<le> 1000000
   \<and> fit (finImage 100 0) (finBox 10 10 50 50) = finRect 10 (10 + 50 / 2) 50 0
   \<and> (1::real) \<le> 20 \<and> (20::real) \<le> 1000000 \<and> (- 1000000::real) \<le> - 40
   \<and> (- 40::real) \<le> - (1 / 1000000)
   \<and> fit (finImage 100 20) (finBox 10 10 50 (- 40)) =
        finRect 10 (10 + (- 40 - 50 / (100 / 20)) / 2) 50 (50 / (100 / 20))"
proof -
  have h: "getPage_of_two (pageIndex \<lparr> pageIndex = JNum (Fin 0), it_pdfBox = Some (finBox 10 10 50 50) \<rparr>) = Inr (Some 0)"
    "it_pdfBox \<lparr> pageIndex = JNum (Fin 0), it_pdfBox = Some (finBox 10 10 50 50) \<rparr> = Some (finBox 10 10 50 50)"
    "drawImage_checked 0 (fit (finImage 100 0) (finBox 10 10 50 50)) = Inr ()"
    "drawImage_checked 0 (fit (finImage 0 0) (finBox 10 10 50 50))
      = Inl (Thrown ''`options` must be of type `number`'')"
    by (simp_all add: fit_eval signed_inf_def drawImage_checked_def)
  have n: "(1::real) \<le> 100" "(100::real) \<le> 1000000" "(1::real) / 1000000 \<le> 50"
    "(50::real) \<le> 1000000" "\<bar>10::real\<bar> \<le> 1000000"
    "(1::real) \<le> 20" "(20::real) \<le> 1000000" "(- 1000000::real) \<le> - 40"
    "(- 40::real) \<le> - (1 / 1000000)"
    by simp_all
  from fit_has_no_validation [where getPage_of = getPage_of_two
      and it = "\<lparr> pageIndex = JNum (Fin 0), it_pdfBox = Some (finBox 10 10 50 50) \<rparr>"
      and page = 0 and box = "finBox 10 10 50 50" and drawImage_of = drawImage_checked
      and img = "finImage 100 0" and u = "()" and draws = "[]"
      and iw = 100 and bw = 50 and bh = 50 and x = 10 and y = 10]
    h(1-3) n(1-5)
  have first: "draw_items getPage_of_two drawImage_checked (finImage 100 0)
        [\<lparr> pageIndex = JNum (Fin 0), it_pdfBox = Some (finBox 10 10 50 50) \<rparr>] []
      = Inr ([] @ [(0, fit (finImage 100 0) (finBox 10 10 50 50))])
    \<and> fit (finImage 100 0) (finBox 10 10 50 50) = finRect 10 (10 + 50 / 2) 50 0"
    by blast
  from fit_has_no_validation [where getPage_of = getPage_of_two
      and it = "\<lparr> pageIndex = JNum (Fin 0), it_pdfBox = Some (finBox 10 10 50 50) \<rparr>"
      and page = 0 and box = "finBox 10 10 50 50" and drawImage_of = drawImage_checked
      and img = "finImage 0 0" and err = "Thrown ''`options` must be of type `number`''"
      and draws = "[]"
      and iw = 100 and bw = 50 and bh = "- 40" and x = 10 and y = 10 and ih = 20]
    h(1,2,4) n
  have second: "draw_items getPage_of_two drawImage_checked (finImage 0 0)
        [\<lparr> pageIndex = JNum (Fin 0), it_pdfBox = Some (finBox 10 10 50 50) \<rparr>] []
      = Inl (Thrown ''`options` must be of type `number`'')
    \<and> fit (finImage 100 20) (finBox 10 10 50 (- 40)) =
        finRect 10 (10 + (- 40 - 50 / (100 / 20)) / 2) 50 (50 / (100 / 20))"
    by blast
  from first second h n show ?thesis
    by blast
qed

section \<open>Properties of the upload handler\<close>

lemma findOne_Some:
  "findOne_pdfHash docs h = Some e \<Longrightarrow> e \<in> set docs \<and> pdfHash e = h"
  unfolding findOne_pdfHash_def by (induction docs) (auto split: if_splits)

lemma findOne_None: "findOne_pdfHash docs h = None \<longleftrightarrow> h \<notin> pdfHash ` set docs"
  unfolding findOne_pdfHash_def by (induction docs) auto

lemma create_uploaded_hash:
  "create_uploaded docs pid path h orig sz = Inr d \<Longrightarrow> h = Some (pdfHash d) \<and> pdfHash d \<noteq> []"
  by (cases h) (auto simp: create_uploaded_def split: if_splits)

lemma upload_pdf_existing:
  assumes "req_file req = Some f" "received_pdfHash req f = Some h" "h \<noteq> []"
    and "h \<in> pdfHash ` set (uploadedDocuments st)"
  shows "\<exists>e \<in> set (uploadedDocuments st). pdfHash e = h
      \<and> upload_pdf st req =
          (UploadResponse True (pdfPath e) (ud_pdfId e) e, st\<lparr>storage := storage st - {filename f}\<rparr>)"
proof -
  from assms(4) obtain e where e: "findOne_pdfHash (uploadedDocuments st) h = Some e"
    using findOne_None [of "uploadedDocuments st" h] by (cases "findOne_pdfHash (uploadedDocuments st) h") auto
  with assms(1-3) have "upload_pdf st req =
      (UploadResponse True (pdfPath e) (ud_pdfId e) e, st\<lparr>storage := storage st - {filename f}\<rparr>)"
    by (simp add: upload_pdf_def Let_def)
  with findOne_Some [OF e] show ?thesis by blast
qed

lemma upload_pdf_docs:
  "uploadedDocuments (snd (upload_pdf st req)) = uploadedDocuments st
   \<or> (\<exists>d. uploadedDocuments (snd (upload_pdf st req)) = uploadedDocuments st @ [d]
        \<and> pdfHash d \<notin> pdfHash ` set (uploadedDocuments st))"
proof (cases "req_file req")
  case None
  then show ?thesis by (simp add: upload_pdf_def)
next
  case (Some f)
  show ?thesis
  proof (cases "str_truthy (received_pdfHash req f)")
    case False
    then have "create_uploaded (uploadedDocuments st) pid path (received_pdfHash req f) orig sz
        = Inl (Thrown ''UploadedDocument validation failed'')"
      for pid path orig sz
      by (simp add: create_uploaded_def)
    with Some False show ?thesis
      by (simp add: upload_pdf_def Let_def)
  next
    case True
    then obtain h where h: "received_pdfHash req f = Some h" "h \<noteq> []"
      by (cases "received_pdfHash req f") auto
    show ?thesis
    proof (cases "findOne_pdfHash (uploadedDocuments st) h")
      case (Some e)
      with \<open>req_file req = Some f\<close> h show ?thesis
        by (simp add: upload_pdf_def Let_def)
    next
      case None
      then have fresh: "h \<notin> pdfHash ` set (uploadedDocuments st)"
        by (simp add: findOne_None)
      show ?thesis
      proof (cases "create_uploaded (uploadedDocuments st) (strip_pdf (filename f))
          (''/storage/'' @ filename f) (Some h) (originalname f) (file_size f)")
        case (Inl err)
        with \<open>req_file req = Some f\<close> h None show ?thesis
          by (simp add: upload_pdf_def Let_def)
      next
        case (Inr d)
        from create_uploaded_hash [OF Inr] have "pdfHash d = h" by simp
        with \<open>req_file req = Some f\<close> h None Inr fresh show ?thesis
          by (simp add: upload_pdf_def Let_def)
      qed
    qed
  qed
qed

lemma upload_pdf_distinct:
  assumes "distinct (map pdfHash (uploadedDocuments st))"
  shows "distinct (map pdfHash (uploadedDocuments (snd (upload_pdf st req))))"
  using upload_pdf_docs [of st req] assms by auto

text \<open>
  Claim C9 says that every upload whose SHA-256 equals the hash of a stored document is
  answered with the stored document, and creates no record. The handler compares the
  \<open>pdfHash\<close> form field when the request carries one, and computes the SHA-256 of the file
  only when it does not. An upload of a file with the SHA-256 of a stored document and
  another value in the form field is stored as a new record.
\<close>

theorem upload_wrong_field_counterexample:
  "upload_pdf storedState \<lparr> req_file = Some sameFile, body_pdfHash = Some otherHash \<rparr> =
     (UploadResponse False ''/storage/a-1700000000001.pdf'' ''a-1700000000001''
        \<lparr> ud_pdfId = ''a-1700000000001'', pdfPath = ''/storage/a-1700000000001.pdf'',
          pdfHash = otherHash, originalFilename = ''a.pdf'', ud_size = 0 \<rparr>,
      storedState\<lparr>uploadedDocuments :=
        [storedDoc,
         \<lparr> ud_pdfId = ''a-1700000000001'', pdfPath = ''/storage/a-1700000000001.pdf'',
           pdfHash = otherHash, originalFilename = ''a.pdf'', ud_size = 0 \<rparr>]\<rparr>)
   \<and> sha256 sameFile = pdfHash storedDoc"
  by (simp add: upload_pdf_def Let_def received_pdfHash_def findOne_pdfHash_def create_uploaded_def
      storedState_def storedDoc_def sameFile_def otherHash_def strip_pdf_def ends_with_pdf_def)

text \<open>
  Claim C9, amended. The hash of an upload is the \<open>pdfHash\<close> form field when it is present
  and not empty, and otherwise the SHA-256 that the server computes from the stored file.
  For every upload whose hash equals the \<open>pdfHash\<close> of a stored record, the handler
  responds with that record's \<open>pdfId\<close> and URL, deletes the newly written file and
  creates no record. So no two records have the same \<open>pdfHash\<close>: every upload, handled
  after the one before, preserves this.
\<close>

theorem upload_pdf_deduplicates:
  "(req_file req = Some f \<and> received_pdfHash req f = Some h \<and> h \<noteq> []
      \<and> h \<in> pdfHash ` set (uploadedDocuments st) \<longrightarrow>
      (\<exists>e \<in> set (uploadedDocuments st). pdfHash e = h
        \<and> upload_pdf st req =
            (UploadResponse True (pdfPath e) (ud_pdfId e) e,
             st\<lparr>storage := storage st - {filename f}\<rparr>)))
   \<and> (distinct (map pdfHash (uploadedDocuments st)) \<longrightarrow>
        distinct (map pdfHash (uploadedDocuments (snd (upload_pdf st req)))))"
  using upload_pdf_existing [of req f h st] upload_pdf_distinct [of st req] by blast

theorem upload_pdf_deduplicates_witness:
  "req_file \<lparr> req_file = Some sameFile, body_pdfHash = None \<rparr> = Some sameFile
   \<and> received_pdfHash \<lparr> req_file = Some sameFile, body_pdfHash = None \<rparr> sameFile = Some (sha256 sameFile)
   \<and> sha256 sameFile \<noteq> []
   \<and> sha256 sameFile \<in> pdfHash ` set (uploadedDocuments storedState)
   \<and> upload_pdf storedState \<lparr> req_file = Some sameFile, body_pdfHash = None \<rparr> =
        (UploadResponse True (pdfPath storedDoc) (ud_pdfId storedDoc) storedDoc,
         storedState\<lparr>storage := storage storedState - {filename sameFile}\<rparr>)
   \<and> distinct (map pdfHash (uploadedDocuments storedState))
   \<and> distinct (map pdfHash (uploadedDocuments
        (snd (upload_pdf storedState \<lparr> req_file = Some sameFile, body_pdfHash = None \<rparr>))))"
proof -
  have h: "req_file \<lparr> req_file = Some sameFile, body_pdfHash = None \<rparr> = Some sameFile"
    "received_pdfHash \<lparr> req_file = Some sameFile, body_pdfHash = None \<rparr> sameFile = Some (sha256 sameFile)"
    "sha256 sameFile \<noteq> []"
    "sha256 sameFile \<in> pdfHash ` set (uploadedDocuments storedState)"
    "distinct (map pdfHash (uploadedDocuments storedState))"
    "set (uploadedDocuments storedState) = {storedDoc}"
    by (simp_all add: received_pdfHash_def sameFile_def storedState_def storedDoc_def)
  from upload_pdf_deduplicates [of "\<lparr> req_file = Some sameFile, body_pdfHash = None \<rparr>" sameFile
      "sha256 sameFile" storedState] h
  show ?thesis by auto
qed

section \<open>Properties of the multi-item signing handler\<close>

lemma draw_items_no_throw:
  assumes "\<forall>it \<in> set its. (\<exists>p. getPage_of (pageIndex it) = Inr p)
      \<and> (\<forall>page. getPage_of (pageIndex it) = Inr (Some page) \<longrightarrow>
           (\<exists>box. it_pdfBox it = Some box \<and> drawImage_of page (fit img box) = Inr ()))"
  shows "draw_items getPage_of drawImage_of img its draws =
    Inr (draws @ concat (map (draws_of getPage_of img) its))"
  using assms
proof (induction its arbitrary: draws)
  case Nil
  then show ?case by simp
next
  case (Cons it its)
  then obtain p where p: "getPage_of (pageIndex it) = Inr p" by auto
  show ?case
  proof (cases p)
    case None
    with p Cons show ?thesis by simp
  next
    case (Some page)
    with p Cons.prems obtain box
      where "it_pdfBox it = Some box" "drawImage_of page (fit img box) = Inr ()"
      by auto
    with p Some Cons show ?thesis by simp
  qed
qed

lemma draw_items_throws:
  assumes "\<exists>it \<in> set its. \<exists>err. getPage_of (pageIndex it) = Inl err"
  shows "\<exists>err. draw_items getPage_of drawImage_of img its draws = Inl err"
  using assms
proof (induction its arbitrary: draws)
  case Nil
  then show ?case by simp
next
  case (Cons it its)
  show ?case
  proof (cases "\<exists>err. getPage_of (pageIndex it) = Inl err")
    case True
    then show ?thesis by auto
  next
    case False
    with Cons.prems have "\<exists>it \<in> set its. \<exists>err. getPage_of (pageIndex it) = Inl err"
      by auto
    from Cons.IH [OF this] show ?thesis
      by (auto split: sum.splits option.splits)
  qed
qed

lemma failed_fields:
  "status (response (failed code msg)) = code" "drawn (failed code msg) = []"
  "written (failed code msg) = None" "insertMany (failed code msg) = []"
  by (simp_all add: failed_def)

text \<open>
  Claim C10 says that in \<open>/api/sign-pdf-multi\<close> an item whose \<open>pageIndex\<close> names no page
  of the document is skipped, and that the response still reports success with one audit
  record for every item. The handler skips an item only when \<open>getPage\<close> returns a falsy
  value. pdf-lib's \<open>getPage\<close> throws for an index outside the document: for the items with
  the indices 0 and 7 on a document of two pages the exception leaves the loop, the
  handler answers 500, writes no file and hands no record to \<open>insertMany\<close>.
\<close>

theorem page_outside_document_counterexample:
  "status (response (sign_pdf_multi exampleEnv outsideReq)) = 500
   \<and> written (sign_pdf_multi exampleEnv outsideReq) = None
   \<and> insertMany (sign_pdf_multi exampleEnv outsideReq) = []"
  by (simp add: sign_pdf_multi_def Let_def exampleEnv_def outsideReq_def outsideItems_def
      is_png_def base64_part_def fit_eval drawImage_checked_def failed_def)

text \<open>
  Claim C10, amended. In \<open>/api/sign-pdf-multi\<close>, with a well-formed request, a stored
  original and a document and image that load: when no library call throws, an item for
  which \<open>getPage\<close> returns a falsy value (with pdf-lib, a page index within the document
  that is not whole) is skipped for drawing, without an error and without a change of the
  status; one audit record is still handed to \<open>insertMany\<close> for every requested item, the
  skipped ones included, and the response reports success with the one \<open>beforeHash\<close> and
  \<open>afterHash\<close> that every record carries. When \<open>getPage\<close> throws for an item (with
  pdf-lib, a page index outside the document), the handler answers 500, writes no file
  and hands over no audit record.
\<close>

theorem sign_pdf_multi_skip_or_fail:
  assumes "mr_pdfId req = Some pid" "pid \<noteq> []" "mr_items req = Some its" "its \<noteq> []"
    and "mr_signatureBase64 req = Some sig" "sig \<noteq> []"
    and "files env (storage_path env (pid @ ''.pdf'')) = Some bytes"
    and "pdf_load env bytes = Inr doc"
    and "(if is_png sig then embedPng env doc (base64_decode env (base64_part sig))
          else embedJpg env doc (base64_decode env (base64_part sig))) = Inr img"
  shows "((\<forall>it \<in> set its. (\<exists>p. getPage env doc (pageIndex it) = Inr p)
            \<and> (\<forall>page. getPage env doc (pageIndex it) = Inr (Some page) \<longrightarrow>
                 (\<exists>box. it_pdfBox it = Some box \<and> drawImage env doc page (fit img box) = Inr ())))
          \<and> save env doc (concat (map (draws_of (getPage env doc) img) its)) = Inr outBytes
          \<longrightarrow>
            response (sign_pdf_multi env req) =
              SignResponse
                (''/storage/'' @ basename (storage_path env (pid @ ''-signed-multi-'' @ now env @ ''.pdf'')))
                (sha256Hex env bytes) (sha256Hex env outBytes)
          \<and> drawn (sign_pdf_multi env req) = concat (map (draws_of (getPage env doc) img) its)
          \<and> (\<forall>it \<in> set its. getPage env doc (pageIndex it) = Inr None \<longrightarrow>
                draws_of (getPage env doc) img it = [])
          \<and> length (insertMany (sign_pdf_multi env req)) = length its
          \<and> map ad_pageIndex (insertMany (sign_pdf_multi env req)) = map pageIndex its
          \<and> (\<forall>a \<in> set (insertMany (sign_pdf_multi env req)).
                ad_beforeHash a = sha256Hex env bytes \<and> ad_afterHash a = sha256Hex env outBytes))
       \<and> ((\<exists>it \<in> set its. \<exists>err. getPage env doc (pageIndex it) = Inl err) \<longrightarrow>
            status (response (sign_pdf_multi env req)) = 500
          \<and> written (sign_pdf_multi env req) = None
          \<and> insertMany (sign_pdf_multi env req) = [])"
proof -
  have emb: "embedPng env doc (base64_decode env (base64_part sig)) = Inr img" if "is_png sig"
    using assms(9) that by simp
  have emb': "embedJpg env doc (base64_decode env (base64_part sig)) = Inr img" if "\<not> is_png sig"
    using assms(9) that by simp
  have A: "response (sign_pdf_multi env req) =
              SignResponse
                (''/storage/'' @ basename (storage_path env (pid @ ''-signed-multi-'' @ now env @ ''.pdf'')))
                (sha256Hex env bytes) (sha256Hex env outBytes)
          \<and> drawn (sign_pdf_multi env req) = concat (map (draws_of (getPage env doc) img) its)
          \<and> (\<forall>it \<in> set its. getPage env doc (pageIndex it) = Inr None \<longrightarrow>
                draws_of (getPage env doc) img it = [])
          \<and> length (insertMany (sign_pdf_multi env req)) = length its
          \<and> map ad_pageIndex (insertMany (sign_pdf_multi env req)) = map pageIndex its
          \<and> (\<forall>a \<in> set (insertMany (sign_pdf_multi env req)).
                ad_beforeHash a = sha256Hex env bytes \<and> ad_afterHash a = sha256Hex env outBytes)"
    if ok: "\<forall>it \<in> set its. (\<exists>p. getPage env doc (pageIndex it) = Inr p)
            \<and> (\<forall>page. getPage env doc (pageIndex it) = Inr (Some page) \<longrightarrow>
                 (\<exists>box. it_pdfBox it = Some box \<and> drawImage env doc page (fit img box) = Inr ()))"
      and sv: "save env doc (concat (map (draws_of (getPage env doc) img) its)) = Inr outBytes"
  proof -
    have loop: "draw_items (getPage env doc) (drawImage env doc) img its [] =
        Inr (concat (map (draws_of (getPage env doc) img) its))"
      using draw_items_no_throw [OF ok, of "[]"] by simp
    have r: "sign_pdf_multi env req =
       \<lparr> response = SignResponse
           (''/storage/'' @ basename (storage_path env (pid @ ''-signed-multi-'' @ now env @ ''.pdf'')))
           (sha256Hex env bytes) (sha256Hex env outBytes),
         drawn = concat (map (draws_of (getPage env doc) img) its),
         written = Some (storage_path env (pid @ ''-signed-multi-'' @ now env @ ''.pdf''), outBytes),
         insertMany = map (\<lambda>it.
                 \<lparr> ad_pdfId = pid, ad_pageIndex = pageIndex it,
                   ad_pdfPathOriginal = ''/storage/'' @ basename (storage_path env (pid @ ''.pdf'')),
                   ad_pdfPathSigned = ''/storage/'' @ basename
                     (storage_path env (pid @ ''-signed-multi-'' @ now env @ ''.pdf'')),
                   ad_beforeHash = sha256Hex env bytes, ad_afterHash = sha256Hex env outBytes,
                   ad_mime = (if is_png sig then ''image/png'' else ''image/jpeg'') \<rparr>) its \<rparr>"
      using assms(1-8) sv loop emb emb'
      by (cases "is_png sig") (simp_all add: sign_pdf_multi_def Let_def)
    show ?thesis
      unfolding r by (simp add: comp_def)
  qed
  have B: "status (response (sign_pdf_multi env req)) = 500
          \<and> written (sign_pdf_multi env req) = None
          \<and> insertMany (sign_pdf_multi env req) = []"
    if "\<exists>it \<in> set its. \<exists>err. getPage env doc (pageIndex it) = Inl err"
  proof -
    from draw_items_throws [OF that] obtain err
      where "draw_items (getPage env doc) (drawImage env doc) img its [] = Inl err"
      by blast
    then have "sign_pdf_multi env req = failed 500 (message_or err ''Sign multi failed'')"
      using assms(1-8) emb emb'
      by (cases "is_png sig") (simp_all add: sign_pdf_multi_def Let_def)
    then show ?thesis by (simp add: failed_fields)
  qed
  from A B show ?thesis by blast
qed

theorem sign_pdf_multi_skip_or_fail_witness:
  "mr_pdfId exampleReq = Some ''a'' \<and> ''a'' \<noteq> [] \<and> mr_items exampleReq = Some exampleItems
   \<and> exampleItems \<noteq> []
   \<and> files exampleEnv (storage_path exampleEnv (''a'' @ ''.pdf'')) = Some [37, 80, 68, 70]
   \<and> getPage exampleEnv () (pageIndex (exampleItems ! 1)) = Inr None
   \<and> response (sign_pdf_multi exampleEnv exampleReq) =
        SignResponse ''/storage/a-signed-multi-1700000000002.pdf'' ''before'' ''after''
   \<and> drawn (sign_pdf_multi exampleEnv exampleReq) = [(0, finRect 10 (45 / 2) 50 25)]
   \<and> length (insertMany (sign_pdf_multi exampleEnv exampleReq)) = 2
   \<and> map ad_pageIndex (insertMany (sign_pdf_multi exampleEnv exampleReq)) = [JNum (Fin 0), JNum (Fin (1 / 2))]
   \<and> mr_items outsideReq = Some outsideItems
   \<and> getPage exampleEnv () (pageIndex (outsideItems ! 1)) = Inl (Thrown ''`index` must be at least 0 and at most 1'')
   \<and> status (response (sign_pdf_multi exampleEnv outsideReq)) = 500
   \<and> insertMany (sign_pdf_multi exampleEnv outsideReq) = []"
proof -
  have its: "set exampleItems = {exampleItems ! 0, exampleItems ! 1}"
    by (simp add: exampleItems_def)
  have gp: "getPage exampleEnv () (pageIndex (exampleItems ! 0)) = Inr (Some 0)"
    "getPage exampleEnv () (pageIndex (exampleItems ! 1)) = Inr None"
    "it_pdfBox (exampleItems ! 0) = Some (finBox 10 10 50 50)"
    "drawImage exampleEnv () 0 (fit (finImage 200 100) (finBox 10 10 50 50)) = Inr ()"
    by (simp_all add: exampleEnv_def exampleItems_def drawImage_checked_def fit_eval)
  have h: "mr_pdfId exampleReq = Some ''a''" "''a'' \<noteq> []" "mr_items exampleReq = Some exampleItems"
    "exampleItems \<noteq> []"
    "mr_signatureBase64 exampleReq = Some ''data:image/png;base64,AAAA''"
    "''data:image/png;base64,AAAA'' \<noteq> []"
    "files exampleEnv (storage_path exampleEnv (''a'' @ ''.pdf'')) = Some [37, 80, 68, 70]"
    "pdf_load exampleEnv [37, 80, 68, 70] = Inr ()"
    by (simp_all add: exampleReq_def exampleEnv_def exampleItems_def)
  have h': "mr_pdfId outsideReq = Some ''a''" "''a'' \<noteq> []" "mr_items outsideReq = Some outsideItems"
    "outsideItems \<noteq> []"
    "mr_signatureBase64 outsideReq = Some ''data:image/png;base64,AAAA''"
    "''data:image/png;base64,AAAA'' \<noteq> []"
    by (simp_all add: outsideReq_def outsideItems_def)
  have e: "(if is_png ''data:image/png;base64,AAAA''
        then embedPng exampleEnv () (base64_decode exampleEnv (base64_part ''data:image/png;base64,AAAA''))
        else embedJpg exampleEnv () (base64_decode exampleEnv (base64_part ''data:image/png;base64,AAAA'')))
      = Inr (finImage 200 100)"
    by (simp add: exampleEnv_def)
  have g: "\<forall>it \<in> set exampleItems. (\<exists>p. getPage exampleEnv () (pageIndex it) = Inr p)
      \<and> (\<forall>page. getPage exampleEnv () (pageIndex it) = Inr (Some page) \<longrightarrow>
           (\<exists>box. it_pdfBox it = Some box
              \<and> drawImage exampleEnv () page (fit (finImage 200 100) box) = Inr ()))"
    unfolding its using gp by simp
  have d: "concat (map (draws_of (getPage exampleEnv ()) (finImage 200 100)) exampleItems)
      = [(0, finRect 10 (45 / 2) 50 25)]"
    by (simp add: exampleEnv_def exampleItems_def fit_eval)
  have s: "save exampleEnv () (concat (map (draws_of (getPage exampleEnv ()) (finImage 200 100)) exampleItems))
      = Inr [37, 80, 68, 70, 0]"
    unfolding d by (simp add: exampleEnv_def)
  have n: "now exampleEnv = ''1700000000002''"
    "sha256Hex exampleEnv [37, 80, 68, 70] = ''before''"
    "sha256Hex exampleEnv [37, 80, 68, 70, 0] = ''after''"
    "basename (storage_path exampleEnv (''a'' @ ''-signed-multi-'' @ ''1700000000002'' @ ''.pdf''))
      = ''a-signed-multi-1700000000002.pdf''"
    "map pageIndex exampleItems = [JNum (Fin 0), JNum (Fin (1 / 2))]"
    "length exampleItems = 2"
    by (simp_all add: exampleEnv_def basename_def exampleItems_def)
  have t: "getPage exampleEnv () (pageIndex (outsideItems ! 1))
      = Inl (Thrown ''`index` must be at least 0 and at most 1'')"
    "outsideItems ! 1 \<in> set outsideItems"
    by (simp_all add: exampleEnv_def outsideItems_def)
  then have t': "\<exists>it \<in> set outsideItems. \<exists>err. getPage exampleEnv () (pageIndex it) = Inl err"
    by blast
  from sign_pdf_multi_skip_or_fail [OF h e, of "[37, 80, 68, 70, 0]"] g s
  have first: "response (sign_pdf_multi exampleEnv exampleReq) =
        SignResponse ''/storage/a-signed-multi-1700000000002.pdf'' ''before'' ''after''
   \<and> drawn (sign_pdf_multi exampleEnv exampleReq) = [(0, finRect 10 (45 / 2) 50 25)]
   \<and> length (insertMany (sign_pdf_multi exampleEnv exampleReq)) = 2
   \<and> map ad_pageIndex (insertMany (sign_pdf_multi exampleEnv exampleReq)) = [JNum (Fin 0), JNum (Fin (1 / 2))]"
    unfolding d n by simp
  from sign_pdf_multi_skip_or_fail [OF h' h(7,8) e] t'
  have second: "status (response (sign_pdf_multi exampleEnv outsideReq)) = 500
      \<and> insertMany (sign_pdf_multi exampleEnv outsideReq) = []"
    by blast
  from first second h(1-4,7) gp(2) h'(3) t(1) show ?thesis
    by simp
qed

end
